theory Spec2Isabelle
  imports Complex_Main "HOL-Library.Word"
begin

unbundle bit_operations_syntax

section \<open>Host shim of the SWAR website: data model\<close>

text \<open>
  The shim (\<^verbatim>\<open>index.js\<close>) keeps its state in module-level variables and talks to
  a WebAssembly guest through the guest's linear memory and exported functions.
  JavaScript numbers that hold integers are modelled as \<^typ>\<open>int\<close>. The coordinates
  and scroll deltas of DOM events are finite doubles: each is the \<^typ>\<open>real\<close> it
  denotes, and the subtraction in \<^verbatim>\<open>getMousePos\<close> rounds its result as binary64
  arithmetic does. A thrown exception is a value of type \<open>error\<close>.
\<close>

type_synonym byte = "8 word"

datatype error = RangeError | TypeError | GuestTrap

text \<open>
  \<^verbatim>\<open>OS_Window_Event_Type\<close> and \<^verbatim>\<open>OS_Key\<close> are objects of numeric constants.
\<close>

abbreviation (input) OS_Window_Event_Type_NIL :: int where "OS_Window_Event_Type_NIL \<equiv> 0"
abbreviation (input) OS_Window_Event_Type_CLOSE :: int where "OS_Window_Event_Type_CLOSE \<equiv> 1"
abbreviation (input) OS_Window_Event_Type_RESIZE :: int where "OS_Window_Event_Type_RESIZE \<equiv> 2"
abbreviation (input) OS_Window_Event_Type_KEYBOARD :: int where "OS_Window_Event_Type_KEYBOARD \<equiv> 3"
abbreviation (input) OS_Window_Event_Type_MOUSE_BUTTON :: int where "OS_Window_Event_Type_MOUSE_BUTTON \<equiv> 4"
abbreviation (input) OS_Window_Event_Type_MOUSE_MOVE :: int where "OS_Window_Event_Type_MOUSE_MOVE \<equiv> 5"
abbreviation (input) OS_Window_Event_Type_MOUSE_SCROLL :: int where "OS_Window_Event_Type_MOUSE_SCROLL \<equiv> 6"

abbreviation (input) OS_Key_UNKNOWN :: int where "OS_Key_UNKNOWN \<equiv> 0"
abbreviation (input) OS_Key_MOUSE_L :: int where "OS_Key_MOUSE_L \<equiv> 1"
abbreviation (input) OS_Key_MOUSE_M :: int where "OS_Key_MOUSE_M \<equiv> 2"
abbreviation (input) OS_Key_MOUSE_R :: int where "OS_Key_MOUSE_R \<equiv> 3"
abbreviation (input) OS_Key_LCONTROL :: int where "OS_Key_LCONTROL \<equiv> 256"
abbreviation (input) OS_Key_RCONTROL :: int where "OS_Key_RCONTROL \<equiv> 257"
abbreviation (input) OS_Key_LSHIFT :: int where "OS_Key_LSHIFT \<equiv> 258"
abbreviation (input) OS_Key_RSHIFT :: int where "OS_Key_RSHIFT \<equiv> 259"
abbreviation (input) OS_Key_LALT :: int where "OS_Key_LALT \<equiv> 260"
abbreviation (input) OS_Key_RALT :: int where "OS_Key_RALT \<equiv> 261"
abbreviation (input) OS_Key_META :: int where "OS_Key_META \<equiv> 262"
abbreviation (input) OS_Key_TAB :: int where "OS_Key_TAB \<equiv> 263"
abbreviation (input) OS_Key_CAPS :: int where "OS_Key_CAPS \<equiv> 264"
abbreviation (input) OS_Key_BACKSPACE :: int where "OS_Key_BACKSPACE \<equiv> 265"
abbreviation (input) OS_Key_DELETE :: int where "OS_Key_DELETE \<equiv> 266"
abbreviation (input) OS_Key_RETURN :: int where "OS_Key_RETURN \<equiv> 267"
abbreviation (input) OS_Key_ESCAPE :: int where "OS_Key_ESCAPE \<equiv> 268"
abbreviation (input) OS_Key_SPACE :: int where "OS_Key_SPACE \<equiv> 269"
abbreviation (input) OS_Key_UP :: int where "OS_Key_UP \<equiv> 270"
abbreviation (input) OS_Key_RIGHT :: int where "OS_Key_RIGHT \<equiv> 271"
abbreviation (input) OS_Key_DOWN :: int where "OS_Key_DOWN \<equiv> 272"
abbreviation (input) OS_Key_LEFT :: int where "OS_Key_LEFT \<equiv> 273"
abbreviation (input) OS_Key_HOME :: int where "OS_Key_HOME \<equiv> 274"
abbreviation (input) OS_Key_END :: int where "OS_Key_END \<equiv> 275"
abbreviation (input) OS_Key_F1 :: int where "OS_Key_F1 \<equiv> 276"
abbreviation (input) OS_Key_F2 :: int where "OS_Key_F2 \<equiv> 277"
abbreviation (input) OS_Key_F3 :: int where "OS_Key_F3 \<equiv> 278"
abbreviation (input) OS_Key_F4 :: int where "OS_Key_F4 \<equiv> 279"
abbreviation (input) OS_Key_F5 :: int where "OS_Key_F5 \<equiv> 280"
abbreviation (input) OS_Key_F6 :: int where "OS_Key_F6 \<equiv> 281"
abbreviation (input) OS_Key_F7 :: int where "OS_Key_F7 \<equiv> 282"
abbreviation (input) OS_Key_F8 :: int where "OS_Key_F8 \<equiv> 283"
abbreviation (input) OS_Key_F9 :: int where "OS_Key_F9 \<equiv> 284"
abbreviation (input) OS_Key_F10 :: int where "OS_Key_F10 \<equiv> 285"
abbreviation (input) OS_Key_F11 :: int where "OS_Key_F11 \<equiv> 286"
abbreviation (input) OS_Key_F12 :: int where "OS_Key_F12 \<equiv> 287"

text \<open>
  An entry of \<^verbatim>\<open>eventQueue\<close>: the object \<^verbatim>\<open>{ type, x, y, pressed, key }\<close>. The
  fields carry the prefix \<open>ev_\<close> so that \<open>x\<close> and \<open>y\<close> stay usable as variables.
\<close>

record event =
  ev_type :: int
  ev_x :: int
  ev_y :: int
  ev_pressed :: int
  ev_key :: int

text \<open>
  The calls the host makes on the guest's exports, in the order they are made, and the
  WebGL objects the host stores, identified by a number.
\<close>

datatype export_call =
    Call_wasm_get_event_buffer
  | Call_wasm_set_event_count int
  | Call_wasm_frame

type_synonym WebGLTexture = nat

text \<open>
  \<^verbatim>\<open>programInfo\<close>: the program and the locations \<^verbatim>\<open>webgl_init\<close> looked up.
\<close>

record ProgramInfo =
  program :: nat
  attribLocations_vertexPosition :: int
  attribLocations_color :: int
  attribLocations_uv :: int
  uniformLocations_projectionMatrix :: nat
  uniformLocations_modelViewMatrix :: nat
  uniformLocations_texture :: nat
  uniformLocations_useTexture :: nat
  uniformLocations_isText :: nat

text \<open>
  The module-level variables. \<open>memory\<close> is \<^verbatim>\<open>wasm.instance.exports.memory.buffer\<close>;
  \<open>textureMap\<close> maps a handle to the stored texture object, which is \<open>None\<close> when
  \<^verbatim>\<open>gl.createTexture()\<close> returned null; \<open>gl_context\<close> says whether \<^verbatim>\<open>gl\<close> has been
  assigned a context; \<open>programInfo\<close> is \<open>None\<close> until \<^verbatim>\<open>webgl_init\<close> has run; the two
  matrices are kept as the bytes of their \<^verbatim>\<open>Float32Array\<close>; \<open>exportCalls\<close> logs the
  calls made on the guest's exports.
\<close>

record host =
  eventQueue :: "event list"
  mousePos :: "int \<times> int"
  memory :: "byte list"
  preloadedFiles :: "string \<rightharpoonup> byte list"
  textureMap :: "int \<rightharpoonup> WebGLTexture option"
  nextTextureHandle :: int
  currentTexture :: "WebGLTexture option"
  currentTexturePixelFormat :: int
  gl_context :: bool
  programInfo :: "ProgramInfo option"
  matProj :: "byte list"
  matModel :: "byte list"
  exportCalls :: "export_call list"

text \<open>
  The guest module is not part of the repository. What the host uses of it: whether
  \<^verbatim>\<open>wasm_frame\<close> is exported (the game loop tests it), the address that
  \<^verbatim>\<open>wasm_get_event_buffer()\<close> returns, and the effect of \<^verbatim>\<open>wasm_frame()\<close> on the
  host's state through the imports (\<open>None\<close> when the guest traps). What the guest
  itself does to its memory inside \<^verbatim>\<open>wasm_get_event_buffer\<close> and
  \<^verbatim>\<open>wasm_set_event_count\<close> is not modelled: the two calls are logged.
\<close>

record guest =
  wasm_frame_exported :: bool
  wasm_get_event_buffer :: int
  wasm_frame :: "host \<Rightarrow> host option"

section \<open>Memory bridge\<close>

text \<open>
  \<^verbatim>\<open>ToInt32\<close> of an integral number, and the four bytes \<^verbatim>\<open>DataView.setInt32\<close>
  stores for it, in the order chosen by \<^verbatim>\<open>littleEndian\<close>.
\<close>

definition ToInt32 :: "int \<Rightarrow> 32 word" where
  "ToInt32 v = word_of_int v"

definition int32_bytes :: "bool \<Rightarrow> 32 word \<Rightarrow> byte list" where
  "int32_bytes littleEndian w =
     (let big = [ucast (drop_bit 24 w), ucast (drop_bit 16 w), ucast (drop_bit 8 w), ucast w]
      in if littleEndian then rev big else big)"

definition store_bytes :: "byte list \<Rightarrow> nat \<Rightarrow> byte list \<Rightarrow> byte list" where
  "store_bytes mem off bs = take off mem @ bs @ drop (off + length bs) mem"

text \<open>
  \<^verbatim>\<open>view.setInt32(byteOffset, value, littleEndian)\<close> on a view of the whole buffer:
  a RangeError when the four bytes do not lie inside the buffer.
\<close>

definition setInt32 :: "byte list \<Rightarrow> int \<Rightarrow> int \<Rightarrow> bool \<Rightarrow> error + byte list" where
  "setInt32 view byteOffset v littleEndian =
     (if byteOffset < 0 \<or> int (length view) < byteOffset + 4 then Inl RangeError
      else Inr (store_bytes view (nat byteOffset) (int32_bytes littleEndian (ToInt32 v))))"

text \<open>
  \<^verbatim>\<open>new Uint8Array(buffer, byteOffset, length)\<close>: the bytes the view covers, or a
  RangeError when offset or length is negative or the range leaves the buffer.
\<close>

definition Uint8Array_view :: "byte list \<Rightarrow> int \<Rightarrow> int \<Rightarrow> error + byte list" where
  "Uint8Array_view buffer byteOffset len =
     (if byteOffset < 0 \<or> len < 0 \<or> int (length buffer) < byteOffset + len then Inl RangeError
      else Inr (take (nat len) (drop (nat byteOffset) buffer)))"

text \<open>
  \<^verbatim>\<open>new Float32Array(buffer, byteOffset, length)\<close>: as above, with four bytes per
  element and an offset that must be a multiple of four. The elements are kept as their
  bytes.
\<close>

definition Float32Array_view :: "byte list \<Rightarrow> int \<Rightarrow> int \<Rightarrow> error + byte list" where
  "Float32Array_view buffer byteOffset len =
     (if byteOffset < 0 \<or> byteOffset mod 4 \<noteq> 0 \<or> len < 0
         \<or> int (length buffer) < byteOffset + 4 * len then Inl RangeError
      else Inr (take (nat (4 * len)) (drop (nat byteOffset) buffer)))"

text \<open>
  \<^verbatim>\<open>cstr_by_ptr\<close>. \<^verbatim>\<open>TextDecoder\<close> belongs to the browser: its \<^verbatim>\<open>decode\<close> is the
  parameter \<open>decode\<close>.
\<close>

definition cstr_by_ptr :: "(byte list \<Rightarrow> string) \<Rightarrow> byte list \<Rightarrow> int \<Rightarrow> int \<Rightarrow> error + string" where
  "cstr_by_ptr decode mem_buffer ptr count =
     (case Uint8Array_view mem_buffer ptr count of
        Inl e \<Rightarrow> Inl e
      | Inr bytes \<Rightarrow> Inr (decode bytes))"

definition float32_array_by_ptr :: "host \<Rightarrow> int \<Rightarrow> int \<Rightarrow> error + byte list" where
  "float32_array_by_ptr s ptr count = Float32Array_view (memory s) ptr count"

section \<open>Event system\<close>

text \<open>
  Comparison of JavaScript strings: by code unit, a proper prefix being smaller. A
  string is a list of 8-bit characters here; every key name of the table is ASCII.
\<close>

fun js_less :: "string \<Rightarrow> string \<Rightarrow> bool" where
  "js_less [] [] = False"
| "js_less [] (b # bs) = True"
| "js_less (a # as) [] = False"
| "js_less (a # as) (b # bs) =
     (if (of_char a :: nat) < of_char b then True
      else if (of_char b :: nat) < of_char a then False
      else js_less as bs)"

definition js_ge :: "string \<Rightarrow> string \<Rightarrow> bool" where
  "js_ge a b = (\<not> js_less a b)"

definition js_le :: "string \<Rightarrow> string \<Rightarrow> bool" where
  "js_le a b = (\<not> js_less b a)"

text \<open>
  \<^verbatim>\<open>key.charCodeAt(0)\<close>; it is only called on a key that is not empty.
  \<^verbatim>\<open>toLowerCase\<close> is only called on a single letter \<^verbatim>\<open>A\<close> to \<^verbatim>\<open>Z\<close>.
\<close>

definition charCodeAt0 :: "string \<Rightarrow> int" where
  "charCodeAt0 k = (case k of [] \<Rightarrow> 0 | c # cs \<Rightarrow> of_char c)"

definition toLowerCase :: "string \<Rightarrow> string" where
  "toLowerCase k =
     map (\<lambda>c. if (65::nat) \<le> of_char c \<and> (of_char c :: nat) \<le> 90
              then char_of (of_char c + (32::nat)) else c) k"

record KeyboardEvent =
  kb_key :: string
  kb_code :: string
  kb_location :: int

definition mapKeyToOSKey :: "KeyboardEvent \<Rightarrow> int" where
  "mapKeyToOSKey event =
     (let k = kb_key event in
      if js_ge k ''0'' \<and> js_le k ''9'' then charCodeAt0 k
      else if length k = 1 \<and> js_ge k ''A'' \<and> js_le k ''Z'' then charCodeAt0 (toLowerCase k)
      else if length k = 1 \<and> js_ge k ''a'' \<and> js_le k ''z'' then charCodeAt0 k
      else if k = ''Control'' then
        (if kb_location event = 1 then OS_Key_LCONTROL else OS_Key_RCONTROL)
      else if k = ''Shift'' then
        (if kb_location event = 1 then OS_Key_LSHIFT else OS_Key_RSHIFT)
      else if k = ''Alt'' then
        (if kb_location event = 1 then OS_Key_LALT else OS_Key_RALT)
      else if k = ''Meta'' then OS_Key_META
      else if k = ''Tab'' then OS_Key_TAB
      else if k = ''CapsLock'' then OS_Key_CAPS
      else if k = ''Backspace'' then OS_Key_BACKSPACE
      else if k = ''Delete'' then OS_Key_DELETE
      else if k = ''Enter'' then OS_Key_RETURN
      else if k = ''Escape'' then OS_Key_ESCAPE
      else if k = '' '' then OS_Key_SPACE
      else if k = ''ArrowUp'' then OS_Key_UP
      else if k = ''ArrowRight'' then OS_Key_RIGHT
      else if k = ''ArrowDown'' then OS_Key_DOWN
      else if k = ''ArrowLeft'' then OS_Key_LEFT
      else if k = ''Home'' then OS_Key_HOME
      else if k = ''End'' then OS_Key_END
      else if k = ''F1'' then OS_Key_F1
      else if k = ''F2'' then OS_Key_F2
      else if k = ''F3'' then OS_Key_F3
      else if k = ''F4'' then OS_Key_F4
      else if k = ''F5'' then OS_Key_F5
      else if k = ''F6'' then OS_Key_F6
      else if k = ''F7'' then OS_Key_F7
      else if k = ''F8'' then OS_Key_F8
      else if k = ''F9'' then OS_Key_F9
      else if k = ''F10'' then OS_Key_F10
      else if k = ''F11'' then OS_Key_F11
      else if k = ''F12'' then OS_Key_F12
      else OS_Key_UNKNOWN)"

definition mapMouseButtonToOSKey :: "int \<Rightarrow> int" where
  "mapMouseButtonToOSKey button =
     (if button = 0 then OS_Key_MOUSE_L
      else if button = 1 then OS_Key_MOUSE_M
      else if button = 2 then OS_Key_MOUSE_R
      else OS_Key_UNKNOWN)"

text \<open>
  \<^verbatim>\<open>getMousePos\<close>: \<open>rect\<close> is what \<^verbatim>\<open>canvas.getBoundingClientRect()\<close> returns at
  the time of the event.
\<close>

record DOMRect =
  rect_left :: real
  rect_top :: real

record MouseEvent =
  clientX :: real
  clientY :: real
  button :: int

record WheelEvent =
  deltaX :: real
  deltaY :: real

text \<open>
  Binary64 arithmetic. \<open>pow2 e\<close> is \<open>2\<close> to the power \<open>e\<close>; \<open>ilog2 x\<close> is the exponent
  of a positive \<open>x\<close>, the \<open>e\<close> with \<open>pow2 e \<le> x < pow2 (e + 1)\<close>.
\<close>

definition pow2 :: "int \<Rightarrow> real" where
  "pow2 e = (if 0 \<le> e then 2 ^ nat e else 1 / 2 ^ nat (- e))"

function ilog2 :: "real \<Rightarrow> int" where
  "ilog2 x =
     (if x \<le> 0 then 0
      else if 2 \<le> x then ilog2 (x / 2) + 1
      else if x < 1 then ilog2 (2 * x) - 1
      else 0)"
  by pat_completeness auto
termination
proof (relation "measure (\<lambda>x. if 1 \<le> x then nat \<lceil>x\<rceil> else nat \<lceil>1 / x\<rceil> + 1)")
  show "wf (measure (\<lambda>x::real. if 1 \<le> x then nat \<lceil>x\<rceil> else nat \<lceil>1 / x\<rceil> + 1))"
    by simp
next
  fix x :: real
  assume a: "\<not> x \<le> 0" "2 \<le> x"
  have "x / 2 \<le> x - 1" using a by simp
  then have "\<lceil>x / 2\<rceil> \<le> \<lceil>x - 1\<rceil>" by (rule ceiling_mono)
  also have "\<dots> < \<lceil>x\<rceil>" by simp
  finally have "\<lceil>x / 2\<rceil> < \<lceil>x\<rceil>" .
  moreover have "0 < \<lceil>x / 2\<rceil>" using a by (simp add: ceiling_less_iff)
  ultimately have "nat \<lceil>x / 2\<rceil> < nat \<lceil>x\<rceil>" by linarith
  then show "(x / 2, x) \<in> measure (\<lambda>x. if 1 \<le> x then nat \<lceil>x\<rceil> else nat \<lceil>1 / x\<rceil> + 1)"
    using a by simp
next
  fix x :: real
  assume a: "\<not> x \<le> 0" "\<not> 2 \<le> x" "x < 1"
  have y: "1 < 1 / x" using a by simp
  show "(2 * x, x) \<in> measure (\<lambda>x. if 1 \<le> x then nat \<lceil>x\<rceil> else nat \<lceil>1 / x\<rceil> + 1)"
  proof (cases "1 \<le> 2 * x")
    case True
    have "\<lceil>2 * x\<rceil> \<le> 2" using a by (simp add: ceiling_le_iff)
    moreover have "2 \<le> \<lceil>1 / x\<rceil>" using y by (simp add: le_ceiling_iff)
    ultimately have "nat \<lceil>2 * x\<rceil> < nat \<lceil>1 / x\<rceil> + 1" by linarith
    then show ?thesis using True a by simp
  next
    case False
    have h: "1 / (2 * x) = (1 / x) / 2" by simp
    have "2 < 1 / x" using False a by (simp add: field_simps)
    then have "(1 / x) / 2 \<le> 1 / x - 1" by simp
    then have "\<lceil>(1 / x) / 2\<rceil> \<le> \<lceil>1 / x - 1\<rceil>" by (rule ceiling_mono)
    also have "\<dots> < \<lceil>1 / x\<rceil>" by simp
    finally have "\<lceil>1 / (2 * x)\<rceil> < \<lceil>1 / x\<rceil>" unfolding h .
    moreover have "0 < \<lceil>1 / (2 * x)\<rceil>" using a by (simp add: ceiling_less_iff)
    ultimately have "nat \<lceil>1 / (2 * x)\<rceil> + 1 < nat \<lceil>1 / x\<rceil> + 1" by linarith
    then show ?thesis using False a by simp
  qed
qed

declare ilog2.simps [simp del]

definition round_half_even :: "real \<Rightarrow> int" where
  "round_half_even y =
     (let n = \<lfloor>y\<rfloor>; f = y - of_int n
      in if f < 1 / 2 then n
         else if 1 / 2 < f then n + 1
         else if even n then n else n + 1)"

text \<open>
  The double nearest to a real, ties to the even significand: 53 significant bits, the
  exponent not below \<open>- 1022\<close> (subnormal numbers). A result of magnitude \<open>pow2 1024\<close> or
  more stands for \<^verbatim>\<open>Infinity\<close> of that sign: like \<^verbatim>\<open>Infinity\<close> it is its own floor,
  is written by \<^verbatim>\<open>setInt32\<close> as 0 (it is a multiple of \<open>2 ^ 32\<close>), and is not a signed
  32-bit value. The difference of two doubles is the double nearest to their exact
  difference.
\<close>

definition round_binary64 :: "real \<Rightarrow> real" where
  "round_binary64 x =
     (if x = 0 then 0
      else
        let e = max (ilog2 \<bar>x\<bar>) (- 1022);
            q = pow2 (e - 52)
        in of_int (round_half_even (x / q)) * q)"

definition binary64_sub :: "real \<Rightarrow> real \<Rightarrow> real" where
  "binary64_sub a b = round_binary64 (a - b)"

definition getMousePos :: "DOMRect \<Rightarrow> MouseEvent \<Rightarrow> int \<times> int" where
  "getMousePos rect event =
     (\<lfloor>binary64_sub (clientX event) (rect_left rect)\<rfloor>,
      \<lfloor>binary64_sub (clientY event) (rect_top rect)\<rfloor>)"

definition pushEvent :: "int \<Rightarrow> int \<Rightarrow> int \<Rightarrow> int \<Rightarrow> int \<Rightarrow> host \<Rightarrow> host" where
  "pushEvent t px py p k s =
     s\<lparr>eventQueue := eventQueue s @
          [\<lparr>ev_type = t, ev_x = px, ev_y = py, ev_pressed = p, ev_key = k\<rparr>]\<rparr>"

text \<open>
  The body of the loop of \<^verbatim>\<open>writeEventsToWASM\<close>: five \<^verbatim>\<open>setInt32\<close> calls, the
  first that throws ending the function.
\<close>

definition write_event :: "byte list \<Rightarrow> int \<Rightarrow> event \<Rightarrow> error + byte list" where
  "write_event view offset ev =
     (case setInt32 view (offset + 0) (ev_type ev) True of Inl e \<Rightarrow> Inl e | Inr v1 \<Rightarrow>
     (case setInt32 v1 (offset + 4) (ev_x ev) True of Inl e \<Rightarrow> Inl e | Inr v2 \<Rightarrow>
     (case setInt32 v2 (offset + 8) (ev_y ev) True of Inl e \<Rightarrow> Inl e | Inr v3 \<Rightarrow>
     (case setInt32 v3 (offset + 12) (ev_pressed ev) True of Inl e \<Rightarrow> Inl e | Inr v4 \<Rightarrow>
      setInt32 v4 (offset + 16) (ev_key ev) True))))"

text \<open>
  \<^verbatim>\<open>for (let i = 0; i < maxEvents; i++)\<close>, started with \<open>i = 0\<close> and
  \<open>offset = eventBufferPtr\<close>.
\<close>

function write_loop ::
  "event list \<Rightarrow> nat \<Rightarrow> int \<Rightarrow> nat \<Rightarrow> int \<Rightarrow> byte list \<Rightarrow> error + byte list" where
  "write_loop queue maxEvents bytesPerEvent i offset view =
     (if i < maxEvents then
        (case write_event view offset (queue ! i) of
           Inl e \<Rightarrow> Inl e
         | Inr view' \<Rightarrow> write_loop queue maxEvents bytesPerEvent (i + 1) (offset + bytesPerEvent) view')
      else Inr view)"
  by pat_completeness auto
termination
  by (relation "measure (\<lambda>(queue, maxEvents, bytesPerEvent, i, offset, view). maxEvents - i)") auto

declare write_loop.simps [simp del]

text \<open>
  \<^verbatim>\<open>writeEventsToWASM\<close>. An exception leaves the function, and with it the game
  loop, which then never schedules another frame: the result \<open>Inl\<close> ends the run.
\<close>

definition writeEventsToWASM :: "guest \<Rightarrow> host \<Rightarrow> error + host" where
  "writeEventsToWASM g s =
     (let count = length (eventQueue s) in
      if count = 0 then Inr s
      else
        let s1 = s\<lparr>exportCalls := exportCalls s @ [Call_wasm_get_event_buffer]\<rparr>;
            eventBufferPtr = wasm_get_event_buffer g;
            bytesPerEvent = 20;
            maxEvents = min count 128
        in (case write_loop (eventQueue s1) maxEvents bytesPerEvent 0 eventBufferPtr (memory s1) of
              Inl e \<Rightarrow> Inl e
            | Inr view \<Rightarrow>
                Inr (s1\<lparr>memory := view,
                        exportCalls := exportCalls s1 @ [Call_wasm_set_event_count (int maxEvents)]\<rparr>)))"

definition clearEventQueue :: "host \<Rightarrow> host" where
  "clearEventQueue s = s\<lparr>eventQueue := []\<rparr>"

text \<open>
  One call of \<^verbatim>\<open>gameLoop\<close> by the browser. \<open>Inr\<close> is the state in which the next
  frame has been requested; \<open>Inl\<close> is an exception that escaped, after which no frame is
  requested any more.
\<close>

definition gameLoop :: "guest \<Rightarrow> host \<Rightarrow> error + host" where
  "gameLoop g s =
     (if wasm_frame_exported g then
        (case (if length (eventQueue s) > 0 then writeEventsToWASM g s else Inr s) of
           Inl e \<Rightarrow> Inl e
         | Inr s1 \<Rightarrow>
             (case wasm_frame g (s1\<lparr>exportCalls := exportCalls s1 @ [Call_wasm_frame]\<rparr>) of
                None \<Rightarrow> Inl GuestTrap
              | Some s2 \<Rightarrow> Inr (clearEventQueue s2)))
      else Inr (clearEventQueue s))"

text \<open>
  The listeners that \<^verbatim>\<open>setupEventListeners\<close> registers for keys, mouse buttons,
  mouse moves and the wheel. \<^verbatim>\<open>event.preventDefault()\<close> acts on the browser only.
\<close>

definition on_keydown :: "KeyboardEvent \<Rightarrow> host \<Rightarrow> host" where
  "on_keydown event s =
     (let osKey = mapKeyToOSKey event in
      if osKey \<noteq> OS_Key_UNKNOWN then pushEvent OS_Window_Event_Type_KEYBOARD 0 0 1 osKey s
      else s)"

definition on_keyup :: "KeyboardEvent \<Rightarrow> host \<Rightarrow> host" where
  "on_keyup event s =
     (let osKey = mapKeyToOSKey event in
      if osKey \<noteq> OS_Key_UNKNOWN then pushEvent OS_Window_Event_Type_KEYBOARD 0 0 0 osKey s
      else s)"

definition on_mousedown :: "DOMRect \<Rightarrow> MouseEvent \<Rightarrow> host \<Rightarrow> host" where
  "on_mousedown rect event s =
     (let pos = getMousePos rect event;
          osKey = mapMouseButtonToOSKey (button event)
      in pushEvent OS_Window_Event_Type_MOUSE_BUTTON (fst pos) (snd pos) 1 osKey s)"

definition on_mouseup :: "DOMRect \<Rightarrow> MouseEvent \<Rightarrow> host \<Rightarrow> host" where
  "on_mouseup rect event s =
     (let pos = getMousePos rect event;
          osKey = mapMouseButtonToOSKey (button event)
      in pushEvent OS_Window_Event_Type_MOUSE_BUTTON (fst pos) (snd pos) 0 osKey s)"

definition on_mousemove :: "DOMRect \<Rightarrow> MouseEvent \<Rightarrow> host \<Rightarrow> host" where
  "on_mousemove rect event s =
     (let pos = getMousePos rect event
      in pushEvent OS_Window_Event_Type_MOUSE_MOVE (fst pos) (snd pos) 0 0 (s\<lparr>mousePos := pos\<rparr>))"

text \<open>\<^verbatim>\<open>Math.sign\<close> of a finite number.\<close>

definition Math_sign :: "real \<Rightarrow> int" where
  "Math_sign d = (if d > 0 then 1 else if d < 0 then - 1 else 0)"

definition on_wheel :: "WheelEvent \<Rightarrow> host \<Rightarrow> host" where
  "on_wheel event s =
     (let scrollDirectionY = - Math_sign (deltaY event);
          scrollDirectionX = - Math_sign (deltaX event)
      in pushEvent OS_Window_Event_Type_MOUSE_SCROLL scrollDirectionX scrollDirectionY 0 0 s)"

text \<open>
  The browser calls the listener registered for the kind of event at hand; between two
  frames it does so for the events that arrived, in order.
\<close>

datatype dom_event =
    Keydown KeyboardEvent
  | Keyup KeyboardEvent
  | Mousedown DOMRect MouseEvent
  | Mouseup DOMRect MouseEvent
  | Mousemove DOMRect MouseEvent
  | Wheel WheelEvent

fun dispatch :: "dom_event \<Rightarrow> host \<Rightarrow> host" where
  "dispatch (Keydown event) s = on_keydown event s"
| "dispatch (Keyup event) s = on_keyup event s"
| "dispatch (Mousedown rect event) s = on_mousedown rect event s"
| "dispatch (Mouseup rect event) s = on_mouseup rect event s"
| "dispatch (Mousemove rect event) s = on_mousemove rect event s"
| "dispatch (Wheel event) s = on_wheel event s"

section \<open>Reading the event buffer\<close>

text \<open>
  The reading side, used to say what the written bytes mean. The guest that reads the
  buffer is not in the repository; the wire format is the spec's: an array of 20-byte
  records, each five little-endian signed 32-bit integers \<open>type, x, y, pressed, key\<close>.
  \<open>getInt32\<close> is \<^verbatim>\<open>DataView.getInt32\<close>, the counterpart of \<open>setInt32\<close>.
\<close>

definition bytes_int32 :: "bool \<Rightarrow> byte list \<Rightarrow> 32 word" where
  "bytes_int32 littleEndian bs =
     foldl (\<lambda>acc b. push_bit 8 acc OR ucast b) 0 (if littleEndian then rev bs else bs)"

definition getInt32 :: "byte list \<Rightarrow> int \<Rightarrow> bool \<Rightarrow> error + int" where
  "getInt32 view byteOffset littleEndian =
     (if byteOffset < 0 \<or> int (length view) < byteOffset + 4 then Inl RangeError
      else Inr (sint (bytes_int32 littleEndian (take 4 (drop (nat byteOffset) view)))))"

definition read_event :: "byte list \<Rightarrow> int \<Rightarrow> error + event" where
  "read_event view offset =
     (case getInt32 view (offset + 0) True of Inl e \<Rightarrow> Inl e | Inr t \<Rightarrow>
     (case getInt32 view (offset + 4) True of Inl e \<Rightarrow> Inl e | Inr px \<Rightarrow>
     (case getInt32 view (offset + 8) True of Inl e \<Rightarrow> Inl e | Inr py \<Rightarrow>
     (case getInt32 view (offset + 12) True of Inl e \<Rightarrow> Inl e | Inr p \<Rightarrow>
     (case getInt32 view (offset + 16) True of Inl e \<Rightarrow> Inl e | Inr k \<Rightarrow>
        Inr \<lparr>ev_type = t, ev_x = px, ev_y = py, ev_pressed = p, ev_key = k\<rparr>)))))"

fun decode_events :: "byte list \<Rightarrow> int \<Rightarrow> nat \<Rightarrow> error + event list" where
  "decode_events view offset 0 = Inr []"
| "decode_events view offset (Suc n) =
     (case read_event view offset of
        Inl e \<Rightarrow> Inl e
      | Inr ev \<Rightarrow>
          (case decode_events view (offset + 20) n of
             Inl e \<Rightarrow> Inl e
           | Inr evs \<Rightarrow> Inr (ev # evs)))"

text \<open>
  A record whose five fields are signed 32-bit integers, as the data model has it; the
  bytes of one record and of a sequence of records; the count last passed to
  \<^verbatim>\<open>wasm_set_event_count\<close>, if any.
\<close>

definition is_int32 :: "int \<Rightarrow> bool" where
  "is_int32 v = (- 2147483648 \<le> v \<and> v < 2147483648)"

definition event_int32 :: "event \<Rightarrow> bool" where
  "event_int32 ev =
     (is_int32 (ev_type ev) \<and> is_int32 (ev_x ev) \<and> is_int32 (ev_y ev)
      \<and> is_int32 (ev_pressed ev) \<and> is_int32 (ev_key ev))"

definition event_bytes :: "event \<Rightarrow> byte list" where
  "event_bytes ev =
     int32_bytes True (ToInt32 (ev_type ev)) @ int32_bytes True (ToInt32 (ev_x ev))
     @ int32_bytes True (ToInt32 (ev_y ev)) @ int32_bytes True (ToInt32 (ev_pressed ev))
     @ int32_bytes True (ToInt32 (ev_key ev))"

definition events_bytes :: "event list \<Rightarrow> byte list" where
  "events_bytes evs = concat (map event_bytes evs)"

fun reported_count :: "export_call list \<Rightarrow> int option" where
  "reported_count [] = None"
| "reported_count (Call_wasm_set_event_count n # cs) =
     (case reported_count cs of None \<Rightarrow> Some n | Some m \<Rightarrow> Some m)"
| "reported_count (c # cs) = reported_count cs"

section \<open>File preloading system\<close>

text \<open>
  \<^verbatim>\<open>preloadFiles\<close>: \<open>fetch\<close> gives, for a path, the bytes of a response that is
  \<^verbatim>\<open>ok\<close>, and \<open>None\<close> for any other response or a failed request, which is only
  logged. The paths are distinct, so the order in which the requests finish does not
  matter.
\<close>

definition filesToPreload :: "string list" where
  "filesToPreload = [''public/font.ttf'']"

definition preloadFiles :: "(string \<Rightarrow> byte list option) \<Rightarrow> host \<Rightarrow> host" where
  "preloadFiles fetch s =
     fold (\<lambda>filepath s'.
             case fetch filepath of
               None \<Rightarrow> s'
             | Some uint8Array \<Rightarrow>
                 s'\<lparr>preloadedFiles := (preloadedFiles s')(filepath \<mapsto> uint8Array)\<rparr>)
          filesToPreload s"

definition js_get_preloaded_file ::
  "(byte list \<Rightarrow> string) \<Rightarrow> int \<Rightarrow> int \<Rightarrow> host \<Rightarrow> error + byte list option" where
  "js_get_preloaded_file decode path_ptr path_len s =
     (case cstr_by_ptr decode (memory s) path_ptr path_len of
        Inl e \<Rightarrow> Inl e
      | Inr path \<Rightarrow>
          (case preloadedFiles s path of
             None \<Rightarrow> Inr None
           | Some fileData \<Rightarrow> Inr (Some fileData)))"

text \<open>
  \<^verbatim>\<open>js_copy_file_to_wasm\<close> returns the number of bytes copied and changes the guest's
  memory; nothing has been changed when it throws.
\<close>

definition js_copy_file_to_wasm ::
  "(byte list \<Rightarrow> string) \<Rightarrow> int \<Rightarrow> int \<Rightarrow> int \<Rightarrow> int \<Rightarrow> host \<Rightarrow> error + int \<times> host" where
  "js_copy_file_to_wasm decode path_ptr path_len dest_ptr max_size s =
     (case js_get_preloaded_file decode path_ptr path_len s of
        Inl e \<Rightarrow> Inl e
      | Inr None \<Rightarrow> Inr (0, s)
      | Inr (Some fileData) \<Rightarrow>
          (let bytesToCopy = min (int (length fileData)) max_size in
           case Uint8Array_view (memory s) dest_ptr bytesToCopy of
             Inl e \<Rightarrow> Inl e
           | Inr destArray \<Rightarrow>
               Inr (bytesToCopy,
                    s\<lparr>memory := store_bytes (memory s) (nat dest_ptr)
                                  (take (nat bytesToCopy) fileData)\<rparr>)))"

definition js_get_file_size ::
  "(byte list \<Rightarrow> string) \<Rightarrow> int \<Rightarrow> int \<Rightarrow> host \<Rightarrow> error + int" where
  "js_get_file_size decode path_ptr path_len s =
     (case js_get_preloaded_file decode path_ptr path_len s of
        Inl e \<Rightarrow> Inl e
      | Inr None \<Rightarrow> Inr 0
      | Inr (Some fileData) \<Rightarrow> Inr (int (length fileData)))"

section \<open>Texture management\<close>

abbreviation (input) PixelFormat_RGBA :: int where "PixelFormat_RGBA \<equiv> 0"
abbreviation (input) PixelFormat_RGB :: int where "PixelFormat_RGB \<equiv> 1"
abbreviation (input) PixelFormat_R :: int where "PixelFormat_R \<equiv> 2"
abbreviation (input) PixelFormat_ALPHA :: int where "PixelFormat_ALPHA \<equiv> 3"

text \<open>
  The \<^verbatim>\<open>switch (pixel_format)\<close> of \<^verbatim>\<open>webgl_create_texture\<close>: \<^verbatim>\<open>bytesPerPixel\<close>
  stays undefined for any other format.
\<close>

definition bytesPerPixel :: "int \<Rightarrow> int option" where
  "bytesPerPixel pixel_format =
     (if pixel_format = PixelFormat_RGBA then Some 4
      else if pixel_format = PixelFormat_RGB then Some 3
      else if pixel_format = PixelFormat_R then Some 1
      else if pixel_format = PixelFormat_ALPHA then Some 1
      else None)"

text \<open>
  \<^verbatim>\<open>webgl_create_texture\<close>; \<open>texture\<close> is what \<^verbatim>\<open>gl.createTexture()\<close> returns. The
  calls on \<^verbatim>\<open>gl\<close> act on the WebGL context only. The function can throw after it
  has taken a handle, so the result comes with the state reached: \<open>Inl\<close> when it threw,
  \<open>Inr\<close> the handle it returned; \<open>filter_mode\<close> is the parameter \<^verbatim>\<open>filter\<close>. With
  an undefined \<^verbatim>\<open>bytesPerPixel\<close> the size is NaN and the view has length 0.
\<close>

definition webgl_create_texture ::
  "WebGLTexture option \<Rightarrow> int \<Rightarrow> int \<Rightarrow> int \<Rightarrow> int \<Rightarrow> int \<Rightarrow> host \<Rightarrow> (error + int) \<times> host" where
  "webgl_create_texture texture data_ptr width height pixel_format filter_mode s =
     (if \<not> gl_context s then (Inl TypeError, s)
      else
        let handle = nextTextureHandle s;
            s1 = s\<lparr>nextTextureHandle := nextTextureHandle s + 1,
                   textureMap := (textureMap s)(handle \<mapsto> texture)\<rparr>
        in if data_ptr \<noteq> 0 then
             (let dataSize = (case bytesPerPixel pixel_format of
                                Some b \<Rightarrow> width * height * b
                              | None \<Rightarrow> 0)
              in case Uint8Array_view (memory s1) data_ptr dataSize of
                   Inl e \<Rightarrow> (Inl e, s1)
                 | Inr data \<Rightarrow> (Inr handle, s1))
           else (Inr handle, s1))"

definition webgl_destroy_texture :: "int \<Rightarrow> host \<Rightarrow> error + host" where
  "webgl_destroy_texture handle s =
     (case textureMap s handle of
        Some (Some texture) \<Rightarrow>
          (if \<not> gl_context s then Inl TypeError
           else Inr (s\<lparr>textureMap := (textureMap s)(handle := None)\<rparr>))
      | _ \<Rightarrow> Inr s)"

text \<open>
  The guest calls the two imports in any order. A call that throws leaves the state as
  it was changed so far. \<open>texture_calls\<close> runs a sequence of calls and collects the
  handles that \<^verbatim>\<open>webgl_create_texture\<close> returned, in order.
\<close>

datatype texture_call =
    Create_texture "WebGLTexture option" int int int int int
  | Destroy_texture int

fun texture_calls :: "texture_call list \<Rightarrow> host \<Rightarrow> int list \<times> host" where
  "texture_calls [] s = ([], s)"
| "texture_calls (Create_texture texture data_ptr width height pixel_format filter_mode # cs) s =
     (case webgl_create_texture texture data_ptr width height pixel_format filter_mode s of
        (Inl e, s1) \<Rightarrow> texture_calls cs s1
      | (Inr handle, s1) \<Rightarrow>
          (case texture_calls cs s1 of (hs, s2) \<Rightarrow> (handle # hs, s2)))"
| "texture_calls (Destroy_texture handle # cs) s =
     (case webgl_destroy_texture handle s of
        Inl e \<Rightarrow> texture_calls cs s
      | Inr s1 \<Rightarrow> texture_calls cs s1)"

text \<open>
  The values the module-level variables start with; the guest's memory comes with the
  instantiated module.
\<close>

definition identity_matrix :: "byte list" where
  "identity_matrix =
     concat (map (\<lambda>i. if i mod 5 = 0 then [0, 0, 128, 63] else [0, 0, 0, 0]) [0 ..< 16])"

definition initial_host :: "byte list \<Rightarrow> host" where
  "initial_host mem =
     \<lparr>eventQueue = [], mousePos = (0, 0), memory = mem, preloadedFiles = Map.empty,
      textureMap = Map.empty, nextTextureHandle = 1, currentTexture = None,
      currentTexturePixelFormat = 0, gl_context = False, programInfo = None,
      matProj = identity_matrix, matModel = identity_matrix, exportCalls = []\<rparr>"

text \<open>
  The records one DOM event adds to the queue: what its listener leaves in the queue of
  the initial state.
\<close>

definition captured :: "dom_event \<Rightarrow> event list" where
  "captured e = eventQueue (dispatch e (initial_host []))"

section \<open>Rendering\<close>

text \<open>
  The WebGL calls of \<^verbatim>\<open>webgl_draw_vertex_buffer\<close>, with the constants of \<^verbatim>\<open>gl\<close>
  they are given.
\<close>

datatype gl_enum = GL_ARRAY_BUFFER | GL_STREAM_DRAW | GL_FLOAT | GL_UNSIGNED_BYTE | GL_TRIANGLES

datatype gl_call =
    CreateBuffer
  | BindBuffer gl_enum
  | BufferData gl_enum "byte list" gl_enum
  | UseProgram nat
  | EnableVertexAttribArray int
  | VertexAttribPointer int int gl_enum bool int int
  | UniformMatrix4fv nat bool "byte list"
  | Uniform1i nat int
  | DrawArrays gl_enum int int
  | DeleteBuffer

text \<open>
  \<^verbatim>\<open>bufferSizeBytes / 4\<close> need not be whole; the \<^verbatim>\<open>Float32Array\<close> constructor
  truncates its length towards zero.
\<close>

definition truncated_quarter :: "int \<Rightarrow> int" where
  "truncated_quarter b = (if 0 \<le> b then b div 4 else - ((- b) div 4))"

text \<open>
  \<^verbatim>\<open>webgl_draw_vertex_buffer\<close>: the WebGL calls it has made, in order, and the
  exception that ended it, if any. The parameters \<^verbatim>\<open>_uv_data\<close> and
  \<^verbatim>\<open>_color_data\<close> are not used.
\<close>

definition webgl_draw_vertex_buffer ::
  "int \<Rightarrow> int \<Rightarrow> int \<Rightarrow> int \<Rightarrow> int \<Rightarrow> int \<Rightarrow> int \<Rightarrow> int \<Rightarrow> int \<Rightarrow> int \<Rightarrow> int \<Rightarrow> int \<Rightarrow> host
   \<Rightarrow> gl_call list \<times> error option" where
  "webgl_draw_vertex_buffer count vert_data vert_size vert_stride vert_offset uv_data
       uv_stride uv_offset color_data color_stride color_offset color_is_float s =
     (if \<not> gl_context s then ([], Some TypeError)
      else
        let bufferSizeBytes = count * vert_stride;
            bufferSizeFloats = truncated_quarter bufferSizeBytes;
            bound = [CreateBuffer, BindBuffer GL_ARRAY_BUFFER]
        in case float32_array_by_ptr s vert_data bufferSizeFloats of
             Inl e \<Rightarrow> (bound, Some e)
           | Inr data \<Rightarrow>
               (case programInfo s of
                  None \<Rightarrow> (bound @ [BufferData GL_ARRAY_BUFFER data GL_STREAM_DRAW], Some TypeError)
                | Some info \<Rightarrow>
                    (bound @
                     [BufferData GL_ARRAY_BUFFER data GL_STREAM_DRAW,
                      UseProgram (program info),
                      EnableVertexAttribArray (attribLocations_vertexPosition info),
                      VertexAttribPointer (attribLocations_vertexPosition info)
                        vert_size GL_FLOAT False vert_stride vert_offset,
                      EnableVertexAttribArray (attribLocations_color info),
                      VertexAttribPointer (attribLocations_color info)
                        4 GL_FLOAT False color_stride color_offset,
                      EnableVertexAttribArray (attribLocations_uv info),
                      VertexAttribPointer (attribLocations_uv info)
                        2 (if color_is_float \<noteq> 0 then GL_FLOAT else GL_UNSIGNED_BYTE)
                        False uv_stride uv_offset,
                      UniformMatrix4fv (uniformLocations_projectionMatrix info) False (matProj s),
                      UniformMatrix4fv (uniformLocations_modelViewMatrix info) False (matModel s),
                      Uniform1i (uniformLocations_texture info) 0,
                      Uniform1i (uniformLocations_useTexture info)
                        (if currentTexture s \<noteq> None then 1 else 0),
                      Uniform1i (uniformLocations_isText info)
                        (if currentTexturePixelFormat s = PixelFormat_ALPHA then 1 else 0),
                      DrawArrays GL_TRIANGLES 0 count,
                      DeleteBuffer], None)))"

section \<open>Example states\<close>

text \<open>
  Concrete inputs on which the theorems below are instantiated: a guest whose event
  buffer is at address 4 and whose frame function changes nothing, a host with 48 bytes
  of memory and two records in the queue, one with 130 records and room for 128, and
  the state the first of them is in after one frame.
\<close>

definition example_guest :: guest where
  "example_guest = \<lparr>wasm_frame_exported = True, wasm_get_event_buffer = 4, wasm_frame = Some\<rparr>"

definition example_queue :: "event list" where
  "example_queue =
     [\<lparr>ev_type = 3, ev_x = 0, ev_y = 0, ev_pressed = 1, ev_key = 97\<rparr>,
      \<lparr>ev_type = 5, ev_x = - 7, ev_y = 300, ev_pressed = 0, ev_key = 0\<rparr>]"

definition example_host :: host where
  "example_host = (initial_host (replicate 48 0))\<lparr>eventQueue := example_queue\<rparr>"

definition example_overflow_host :: host where
  "example_overflow_host =
     (initial_host (replicate 2600 0))
       \<lparr>eventQueue := map (\<lambda>i. \<lparr>ev_type = 5, ev_x = int i, ev_y = 0, ev_pressed = 0, ev_key = 0\<rparr>)
                          [0 ..< 130]\<rparr>"

definition example_next_host :: host where
  "example_next_host =
     example_host
       \<lparr>memory := store_bytes (replicate 48 0) 4 (events_bytes example_queue),
        exportCalls := [Call_wasm_get_event_buffer, Call_wasm_set_event_count 2, Call_wasm_frame],
        eventQueue := []\<rparr>"

text \<open>
  A host whose previous frame reported three events and whose queue is empty; a host
  after a preload in which every request failed, with the path \<^verbatim>\<open>a.b\<close> at address 0,
  and a decoder for it; a host with a WebGL context and a program, and two calls that
  create textures.
\<close>

definition example_idle_host :: host where
  "example_idle_host =
     (initial_host (replicate 48 0))
       \<lparr>exportCalls := [Call_wasm_get_event_buffer, Call_wasm_set_event_count 3, Call_wasm_frame]\<rparr>"

definition example_files_host :: host where
  "example_files_host =
     preloadFiles (\<lambda>filepath. None) (initial_host ([97, 46, 98] @ replicate 45 0))"

definition latin1 :: "byte list \<Rightarrow> string" where
  "latin1 bytes = map (\<lambda>b. char_of (unat b)) bytes"

definition example_gl_host :: host where
  "example_gl_host = (initial_host (replicate 64 0))
     \<lparr>gl_context := True,
      programInfo := Some \<lparr>program = 0, attribLocations_vertexPosition = 0,
        attribLocations_color = 1, attribLocations_uv = 2,
        uniformLocations_projectionMatrix = 0, uniformLocations_modelViewMatrix = 1,
        uniformLocations_texture = 2, uniformLocations_useTexture = 3,
        uniformLocations_isText = 4\<rparr>\<rparr>"

definition example_texture_calls :: "texture_call list" where
  "example_texture_calls =
     [Create_texture (Some 0) 16 2 2 PixelFormat_RGBA 0,
      Create_texture (Some 1) 0 4 4 PixelFormat_ALPHA 1]"

section \<open>The event buffer: writing and reading back\<close>

lemma length_int32_bytes: "length (int32_bytes le w) = 4"
  by (simp add: int32_bytes_def Let_def)

lemma length_event_bytes: "length (event_bytes ev) = 20"
  by (simp add: event_bytes_def length_int32_bytes)

lemma length_events_bytes: "length (events_bytes evs) = 20 * length evs"
  by (induction evs) (simp_all add: events_bytes_def length_event_bytes)

lemma bytes_int32_int32_bytes: "bytes_int32 True (int32_bytes True w) = w"
proof (rule bit_word_eqI)
  fix n assume "n < LENGTH(32)"
  then have n: "n < 32" by simp
  consider "n < 8" | "8 \<le> n" "n < 16" | "16 \<le> n" "n < 24" | "24 \<le> n" "n < 32"
    using n by linarith
  then show "bit (bytes_int32 True (int32_bytes True w)) n = bit w n"
  proof cases
    case 1 then show ?thesis
      by (simp add: bytes_int32_def int32_bytes_def bit_simps)
  next
    case 2 then show ?thesis
      by (auto simp add: bytes_int32_def int32_bytes_def bit_simps)
  next
    case 3 then show ?thesis
      by (auto simp add: bytes_int32_def int32_bytes_def bit_simps)
  next
    case 4 then show ?thesis
      by (auto simp add: bytes_int32_def int32_bytes_def bit_simps)
  qed
qed

lemma sint_ToInt32: "is_int32 v \<Longrightarrow> sint (ToInt32 v) = v"
  by (simp add: is_int32_def ToInt32_def sint_sbintrunc' signed_take_bit_int_eq_self)

lemma length_store_bytes:
  "off + length bs \<le> length mem \<Longrightarrow> length (store_bytes mem off bs) = length mem"
  by (simp add: store_bytes_def)

lemma store_bytes_append:
  "off + length a + length b \<le> length mem \<Longrightarrow>
   store_bytes (store_bytes mem off a) (off + length a) b = store_bytes mem off (a @ b)"
proof -
  assume h: "off + length a + length b \<le> length mem"
  show ?thesis
  proof (cases "length mem \<le> off")
    case True
    with h have "length a = 0" "length b = 0" by linarith+
    then have "a = []" "b = []" by simp_all
    then show ?thesis by (simp add: store_bytes_def)
  next
    case False
    with h show ?thesis
      by (simp add: store_bytes_def min_def add.commute add.left_commute)
  qed
qed

lemma setInt32_ok:
  "0 \<le> off \<Longrightarrow> off + 4 \<le> int (length view) \<Longrightarrow>
   setInt32 view off v True = Inr (store_bytes view (nat off) (int32_bytes True (ToInt32 v)))"
  by (simp add: setInt32_def)

lemma write_event_ok:
  assumes "0 \<le> off" "off + 20 \<le> int (length view)"
  shows "write_event view off ev = Inr (store_bytes view (nat off) (event_bytes ev))"
proof -
  let ?b = "\<lambda>v. int32_bytes True (ToInt32 v)"
  let ?n = "nat off"
  have n: "?n + 20 \<le> length view" using assms by linarith
  have o: "nat (off + 4) = ?n + 4" "nat (off + 8) = ?n + 8" "nat (off + 12) = ?n + 12"
    "nat (off + 16) = ?n + 16"
    using assms by linarith+
  define v1 where "v1 = store_bytes view ?n (?b (ev_type ev))"
  define v2 where "v2 = store_bytes view ?n (?b (ev_type ev) @ ?b (ev_x ev))"
  define v3 where "v3 = store_bytes view ?n (?b (ev_type ev) @ ?b (ev_x ev) @ ?b (ev_y ev))"
  define v4 where "v4 = store_bytes view ?n
     (?b (ev_type ev) @ ?b (ev_x ev) @ ?b (ev_y ev) @ ?b (ev_pressed ev))"
  have l: "length v1 = length view" "length v2 = length view" "length v3 = length view"
    "length v4 = length view"
    using n by (simp_all add: v1_def v2_def v3_def v4_def length_store_bytes length_int32_bytes)
  have s1: "setInt32 view off (ev_type ev) True = Inr v1"
    using assms by (simp add: setInt32_ok v1_def)
  have "store_bytes v1 (?n + 4) (?b (ev_x ev)) = v2"
    unfolding v1_def v2_def
    using store_bytes_append [of ?n "?b (ev_type ev)" "?b (ev_x ev)" view] n
    by (simp add: length_int32_bytes)
  then have s2: "setInt32 v1 (off + 4) (ev_x ev) True = Inr v2"
    using assms l o by (simp add: setInt32_ok)
  have "store_bytes v2 (?n + 8) (?b (ev_y ev)) = v3"
    unfolding v2_def v3_def
    using store_bytes_append [of ?n "?b (ev_type ev) @ ?b (ev_x ev)" "?b (ev_y ev)" view] n
    by (simp add: length_int32_bytes)
  then have s3: "setInt32 v2 (off + 8) (ev_y ev) True = Inr v3"
    using assms l o by (simp add: setInt32_ok)
  have "store_bytes v3 (?n + 12) (?b (ev_pressed ev)) = v4"
    unfolding v3_def v4_def
    using store_bytes_append [of ?n "?b (ev_type ev) @ ?b (ev_x ev) @ ?b (ev_y ev)"
        "?b (ev_pressed ev)" view] n
    by (simp add: length_int32_bytes)
  then have s4: "setInt32 v3 (off + 12) (ev_pressed ev) True = Inr v4"
    using assms l o by (simp add: setInt32_ok)
  have "store_bytes v4 (?n + 16) (?b (ev_key ev)) = store_bytes view ?n (event_bytes ev)"
    unfolding v4_def event_bytes_def
    using store_bytes_append [of ?n
        "?b (ev_type ev) @ ?b (ev_x ev) @ ?b (ev_y ev) @ ?b (ev_pressed ev)"
        "?b (ev_key ev)" view] n
    by (simp add: length_int32_bytes)
  then have s5: "setInt32 v4 (off + 16) (ev_key ev) True
      = Inr (store_bytes view ?n (event_bytes ev))"
    using assms l o by (simp add: setInt32_ok)
  show ?thesis
    by (simp add: write_event_def s1 s2 s3 s4 s5)
qed

lemma write_loop_ok:
  "i \<le> maxEvents \<Longrightarrow> maxEvents \<le> length queue \<Longrightarrow> 0 \<le> off \<Longrightarrow>
   off + 20 * int (maxEvents - i) \<le> int (length view) \<Longrightarrow>
   write_loop queue maxEvents 20 i off view
     = Inr (store_bytes view (nat off) (events_bytes (take (maxEvents - i) (drop i queue))))"
proof (induction queue maxEvents "20 :: int" i off view rule: write_loop.induct)
  case (1 queue maxEvents i offset view)
  show ?case
  proof (cases "i < maxEvents")
    case False
    then show ?thesis
      by (subst write_loop.simps) (simp add: events_bytes_def store_bytes_def)
  next
    case True
    let ?v = "store_bytes view (nat offset) (event_bytes (queue ! i))"
    have k: "1 \<le> int (maxEvents - i)" using True by simp
    have le: "nat offset + 20 \<le> length view"
      using k "1.prems" by linarith
    have we: "write_event view offset (queue ! i) = Inr ?v"
      using k "1.prems" by (intro write_event_ok) auto
    have lv: "length ?v = length view"
      using le by (simp add: length_store_bytes length_event_bytes)
    have ih: "write_loop queue maxEvents 20 (i + 1) (offset + 20) ?v
        = Inr (store_bytes ?v (nat (offset + 20))
               (events_bytes (take (maxEvents - (i + 1)) (drop (i + 1) queue))))"
      using True "1.prems" lv by (intro "1.hyps" [OF True we]) auto
    have sp: "take (maxEvents - i) (drop i queue)
        = queue ! i # take (maxEvents - (i + 1)) (drop (i + 1) queue)"
      using True "1.prems"
      by (metis Cons_nth_drop_Suc Suc_diff_Suc Suc_eq_plus1 less_le_trans take_Suc_Cons)
    let ?rest = "take (maxEvents - (i + 1)) (drop (i + 1) queue)"
    have lr: "length ?rest = maxEvents - (i + 1)"
      using "1.prems" by simp
    have "int (nat offset) + 20 + 20 * int (maxEvents - (i + 1)) \<le> int (length view)"
      using True "1.prems" by simp
    then have "nat offset + 20 + 20 * (maxEvents - (i + 1)) \<le> length view"
      by linarith
    then have pr: "nat offset + length (event_bytes (queue ! i)) + length (events_bytes ?rest)
        \<le> length view"
      by (simp only: length_event_bytes length_events_bytes lr)
    have no: "nat (offset + 20) = nat offset + length (event_bytes (queue ! i))"
      using "1.prems" by (simp add: length_event_bytes nat_add_distrib)
    have "store_bytes ?v (nat (offset + 20)) (events_bytes ?rest)
        = store_bytes view (nat offset) (events_bytes (take (maxEvents - i) (drop i queue)))"
      unfolding no store_bytes_append [OF pr] sp
      by (simp add: events_bytes_def)
    then show ?thesis
      using True we ih by (subst write_loop.simps) simp
  qed
qed

lemma getInt32_at:
  "getInt32 (pre @ int32_bytes True w @ post) (int (length pre)) True = Inr (sint w)"
proof -
  have "take 4 (drop (length pre) (pre @ int32_bytes True w @ post)) = int32_bytes True w"
    by (simp add: length_int32_bytes)
  then show ?thesis
    by (simp add: getInt32_def length_int32_bytes bytes_int32_int32_bytes)
qed

lemma read_event_at:
  assumes "event_int32 ev"
  shows "read_event (pre @ event_bytes ev @ post) (int (length pre)) = Inr ev"
proof -
  let ?b = "\<lambda>v. int32_bytes True (ToInt32 v)"
  let ?view = "pre @ event_bytes ev @ post"
  have v0: "?view = pre @ ?b (ev_type ev)
      @ (?b (ev_x ev) @ ?b (ev_y ev) @ ?b (ev_pressed ev) @ ?b (ev_key ev) @ post)"
    by (simp add: event_bytes_def)
  have v1: "?view = (pre @ ?b (ev_type ev)) @ ?b (ev_x ev)
      @ (?b (ev_y ev) @ ?b (ev_pressed ev) @ ?b (ev_key ev) @ post)"
    by (simp add: event_bytes_def)
  have v2: "?view = (pre @ ?b (ev_type ev) @ ?b (ev_x ev)) @ ?b (ev_y ev)
      @ (?b (ev_pressed ev) @ ?b (ev_key ev) @ post)"
    by (simp add: event_bytes_def)
  have v3: "?view = (pre @ ?b (ev_type ev) @ ?b (ev_x ev) @ ?b (ev_y ev)) @ ?b (ev_pressed ev)
      @ (?b (ev_key ev) @ post)"
    by (simp add: event_bytes_def)
  have v4: "?view = (pre @ ?b (ev_type ev) @ ?b (ev_x ev) @ ?b (ev_y ev) @ ?b (ev_pressed ev))
      @ ?b (ev_key ev) @ post"
    by (simp add: event_bytes_def)
  have g0: "getInt32 ?view (int (length pre)) True = Inr (ev_type ev)"
    using assms getInt32_at [of pre "ToInt32 (ev_type ev)"] 
    by (simp only: v0 sint_ToInt32 event_int32_def)
  have g1: "getInt32 ?view (int (length pre) + 4) True = Inr (ev_x ev)"
    using assms getInt32_at [of "pre @ ?b (ev_type ev)" "ToInt32 (ev_x ev)"]
    unfolding v1 by (simp add: length_int32_bytes sint_ToInt32 event_int32_def)
  have g2: "getInt32 ?view (int (length pre) + 8) True = Inr (ev_y ev)"
    using assms getInt32_at [of "pre @ ?b (ev_type ev) @ ?b (ev_x ev)" "ToInt32 (ev_y ev)"]
    unfolding v2 by (simp add: length_int32_bytes sint_ToInt32 event_int32_def)
  have g3: "getInt32 ?view (int (length pre) + 12) True = Inr (ev_pressed ev)"
    using assms getInt32_at [of "pre @ ?b (ev_type ev) @ ?b (ev_x ev) @ ?b (ev_y ev)"
        "ToInt32 (ev_pressed ev)"]
    unfolding v3 by (simp add: length_int32_bytes sint_ToInt32 event_int32_def)
  have g4: "getInt32 ?view (int (length pre) + 16) True = Inr (ev_key ev)"
    using assms getInt32_at [of
        "pre @ ?b (ev_type ev) @ ?b (ev_x ev) @ ?b (ev_y ev) @ ?b (ev_pressed ev)"
        "ToInt32 (ev_key ev)"]
    unfolding v4 by (simp add: length_int32_bytes sint_ToInt32 event_int32_def)
  show ?thesis
    by (simp add: read_event_def g0 g1 g2 g3 g4)
qed

lemma decode_events_at:
  "list_all event_int32 evs \<Longrightarrow>
   decode_events (pre @ events_bytes evs @ post) (int (length pre)) (length evs) = Inr evs"
proof (induction evs arbitrary: pre)
  case Nil
  then show ?case by simp
next
  case (Cons ev evs)
  have r: "read_event (pre @ events_bytes (ev # evs) @ post) (int (length pre)) = Inr ev"
    using Cons.prems read_event_at [of ev pre "events_bytes evs @ post"]
    by (simp add: events_bytes_def)
  have d: "decode_events (pre @ events_bytes (ev # evs) @ post) (int (length pre) + 20) (length evs)
      = Inr evs"
    using Cons.prems Cons.IH [of "pre @ event_bytes ev"]
    by (simp add: events_bytes_def length_event_bytes)
  show ?case
    by (simp add: r d)
qed

lemma decode_events_store:
  assumes "list_all event_int32 evs" "off + 20 * length evs \<le> length mem"
  shows "decode_events (store_bytes mem off (events_bytes evs)) (int off) (length evs) = Inr evs"
proof -
  have "length (take off mem) = off" using assms by simp
  then show ?thesis
    using decode_events_at [OF assms(1), of "take off mem"] 
    by (simp add: store_bytes_def)
qed

lemma writeEventsToWASM_ok:
  assumes "eventQueue s \<noteq> []"
    and "0 \<le> wasm_get_event_buffer g"
    and "wasm_get_event_buffer g + 20 * int (min (length (eventQueue s)) 128)
           \<le> int (length (memory s))"
  shows "writeEventsToWASM g s =
     Inr (s\<lparr>memory := store_bytes (memory s) (nat (wasm_get_event_buffer g))
                         (events_bytes (take 128 (eventQueue s))),
            exportCalls := exportCalls s @
              [Call_wasm_get_event_buffer,
               Call_wasm_set_event_count (int (min (length (eventQueue s)) 128))]\<rparr>)"
proof -
  let ?n = "min (length (eventQueue s)) 128"
  have "write_loop (eventQueue s) ?n 20 0 (wasm_get_event_buffer g) (memory s)
      = Inr (store_bytes (memory s) (nat (wasm_get_event_buffer g))
               (events_bytes (take (?n - 0) (drop 0 (eventQueue s)))))"
    using assms by (intro write_loop_ok) auto
  moreover have "take ?n (eventQueue s) = take 128 (eventQueue s)"
    by (simp add: min_def)
  ultimately have w: "write_loop (eventQueue s) ?n 20 0 (wasm_get_event_buffer g) (memory s)
      = Inr (store_bytes (memory s) (nat (wasm_get_event_buffer g))
               (events_bytes (take 128 (eventQueue s))))"
    by simp
  show ?thesis
    using assms(1) by (simp add: writeEventsToWASM_def Let_def w)
qed

text \<open>
  The loop and the reader on the example: two's complement and byte order as
  \<^verbatim>\<open>DataView\<close> has them. A field outside the signed 32-bit range is stored wrapped.
\<close>

lemma example_write_loop:
  "write_loop example_queue 2 20 0 4 (replicate 48 0) =
     Inr [0, 0, 0, 0,
      3, 0, 0, 0,  0, 0, 0, 0,  0, 0, 0, 0,  1, 0, 0, 0,  97, 0, 0, 0,
      5, 0, 0, 0,  249, 255, 255, 255,  44, 1, 0, 0,  0, 0, 0, 0,  0, 0, 0, 0,
      0, 0, 0, 0]"
  by code_simp

lemma example_decode_events:
  "decode_events [0, 0, 0, 0,
      3, 0, 0, 0,  0, 0, 0, 0,  0, 0, 0, 0,  1, 0, 0, 0,  97, 0, 0, 0,
      5, 0, 0, 0,  249, 255, 255, 255,  44, 1, 0, 0,  0, 0, 0, 0,  0, 0, 0, 0,
      0, 0, 0, 0] 4 2 = Inr example_queue"
  by code_simp

lemma example_setInt32_wraps:
  "setInt32 [0, 0, 0, 0] 0 2147483648 True = Inr [0, 0, 0, 128]"
  "getInt32 [0, 0, 0, 128] 0 True = Inr (- 2147483648)"
  by code_simp+

text \<open>
  C1. In a frame in which \<open>N\<close> records were captured, \<open>1 \<le> N \<le> 128\<close>, each
  field a signed 32-bit integer, and the \<open>20 * N\<close> bytes from the address the guest
  supplies lie inside its memory: \<^verbatim>\<open>writeEventsToWASM\<close> returns normally, the memory
  holds from that address on the \<open>N\<close> records in capture order as consecutive 20-byte
  blocks of little-endian \<open>type, x, y, pressed, key\<close>, the count passed to
  \<^verbatim>\<open>wasm_set_event_count\<close> is \<open>N\<close>, and decoding \<open>N\<close> records from that address gives
  the queue back, field for field, in the same order.
\<close>

theorem flush_roundtrip:
  assumes "eventQueue s \<noteq> []"
    and "length (eventQueue s) \<le> 128"
    and "list_all event_int32 (eventQueue s)"
    and "0 \<le> wasm_get_event_buffer g"
    and "wasm_get_event_buffer g + 20 * int (length (eventQueue s)) \<le> int (length (memory s))"
  shows "writeEventsToWASM g s =
           Inr (s\<lparr>memory := store_bytes (memory s) (nat (wasm_get_event_buffer g))
                               (events_bytes (eventQueue s)),
                  exportCalls := exportCalls s @
                    [Call_wasm_get_event_buffer,
                     Call_wasm_set_event_count (int (length (eventQueue s)))]\<rparr>)
       \<and> length (events_bytes (eventQueue s)) = 20 * length (eventQueue s)
       \<and> decode_events
             (store_bytes (memory s) (nat (wasm_get_event_buffer g)) (events_bytes (eventQueue s)))
             (wasm_get_event_buffer g) (length (eventQueue s))
           = Inr (eventQueue s)"
proof -
  have m: "min (length (eventQueue s)) 128 = length (eventQueue s)"
    using assms(2) by simp
  have w: "writeEventsToWASM g s =
           Inr (s\<lparr>memory := store_bytes (memory s) (nat (wasm_get_event_buffer g))
                               (events_bytes (eventQueue s)),
                  exportCalls := exportCalls s @
                    [Call_wasm_get_event_buffer,
                     Call_wasm_set_event_count (int (length (eventQueue s)))]\<rparr>)"
    using writeEventsToWASM_ok [of s g] assms by (simp add: m)
  have "nat (wasm_get_event_buffer g) + 20 * length (eventQueue s) \<le> length (memory s)"
    using assms(4,5) by linarith
  from decode_events_store [OF assms(3) this]
  have d: "decode_events
             (store_bytes (memory s) (nat (wasm_get_event_buffer g)) (events_bytes (eventQueue s)))
             (wasm_get_event_buffer g) (length (eventQueue s))
           = Inr (eventQueue s)"
    using assms(4) by simp
  show ?thesis
    using w d by (simp add: length_events_bytes)
qed

lemma example_queue_int32: "list_all event_int32 example_queue"
  by (simp add: example_queue_def event_int32_def is_int32_def)

theorem flush_roundtrip_witness:
  "eventQueue example_host \<noteq> []
   \<and> length (eventQueue example_host) \<le> 128
   \<and> list_all event_int32 (eventQueue example_host)
   \<and> 0 \<le> wasm_get_event_buffer example_guest
   \<and> wasm_get_event_buffer example_guest + 20 * int (length (eventQueue example_host))
        \<le> int (length (memory example_host))
   \<and> writeEventsToWASM example_guest example_host =
        Inr (example_host\<lparr>memory := store_bytes (memory example_host) 4 (events_bytes example_queue),
               exportCalls := [Call_wasm_get_event_buffer, Call_wasm_set_event_count 2]\<rparr>)
   \<and> decode_events (store_bytes (memory example_host) 4 (events_bytes example_queue)) 4 2
        = Inr example_queue"
proof -
  have q: "eventQueue example_host = example_queue"
    by (simp add: example_host_def)
  have h1: "eventQueue example_host \<noteq> []"
    by (simp add: q example_queue_def)
  have h2: "length (eventQueue example_host) \<le> 128"
    by (simp add: q example_queue_def)
  have h3: "list_all event_int32 (eventQueue example_host)"
    by (simp add: q example_queue_int32)
  have h4: "0 \<le> wasm_get_event_buffer example_guest"
    by (simp add: example_guest_def)
  have h5: "wasm_get_event_buffer example_guest + 20 * int (length (eventQueue example_host))
        \<le> int (length (memory example_host))"
    by (simp add: q example_queue_def example_guest_def example_host_def initial_host_def)
  have l: "length example_queue = 2" "wasm_get_event_buffer example_guest = 4"
    "exportCalls example_host = []"
    by (simp_all add: example_queue_def example_guest_def example_host_def initial_host_def)
  show ?thesis
    using flush_roundtrip [OF h1 h2 h3 h4 h5] h1 h2 h3 h4 h5
    by (simp add: q l)
qed

text \<open>
  The range of \<open>N\<close> cannot include 0. With an empty queue, and a count of 3 reported in
  the frame before, \<^verbatim>\<open>writeEventsToWASM\<close> returns at once: the state is unchanged,
  \<^verbatim>\<open>wasm_set_event_count\<close> is not called, and the count last reported is still 3, not
  the number 0 of records in the queue.
\<close>

theorem flush_roundtrip_counterexample:
  "length (eventQueue example_idle_host) = 0
   \<and> writeEventsToWASM example_guest example_idle_host = Inr example_idle_host
   \<and> exportCalls example_idle_host
       = [Call_wasm_get_event_buffer, Call_wasm_set_event_count 3, Call_wasm_frame]
   \<and> reported_count (exportCalls example_idle_host) = Some 3
   \<and> reported_count (exportCalls example_idle_host)
       \<noteq> Some (int (length (eventQueue example_idle_host)))"
  by (simp add: example_idle_host_def initial_host_def writeEventsToWASM_def)

section \<open>The queue, the listeners and the game loop\<close>

lemma eventQueue_pushEvent:
  "eventQueue (pushEvent t px py p k s)
     = eventQueue s @ [\<lparr>ev_type = t, ev_x = px, ev_y = py, ev_pressed = p, ev_key = k\<rparr>]"
  by (simp add: pushEvent_def)

lemma eventQueue_dispatch: "eventQueue (dispatch e s) = eventQueue s @ captured e"
  by (cases e)
    (simp_all add: captured_def on_keydown_def on_keyup_def on_mousedown_def on_mouseup_def
      on_mousemove_def on_wheel_def Let_def eventQueue_pushEvent initial_host_def)

lemma eventQueue_fold_dispatch:
  "eventQueue (fold dispatch es s) = eventQueue s @ concat (map captured es)"
  by (induction es arbitrary: s) (simp_all add: eventQueue_dispatch)

text \<open>
  The records the listeners make have signed 32-bit fields: always for keys and the
  wheel, and for the mouse whenever the floored coordinates are in that range.
\<close>

lemma charCodeAt0_int32: "is_int32 (charCodeAt0 k)"
proof (cases k)
  case Nil
  then show ?thesis by (simp add: charCodeAt0_def is_int32_def)
next
  case (Cons c cs)
  have e: "(of_char c :: int) = int (of_char c)" by (simp add: of_char_def)
  have "(of_char c :: nat) < 256" by simp
  then have "int (of_char c) < 256" by linarith
  then have "0 \<le> (of_char c :: int) \<and> (of_char c :: int) < 256"
    unfolding e by simp
  then show ?thesis
    using Cons by (simp add: charCodeAt0_def is_int32_def)
qed

lemma mapKeyToOSKey_int32: "is_int32 (mapKeyToOSKey event)"
  using charCodeAt0_int32 [of "kb_key event"] charCodeAt0_int32 [of "toLowerCase (kb_key event)"]
  by (simp add: mapKeyToOSKey_def Let_def is_int32_def)

lemma captured_int32:
  "list_all event_int32 (captured (Keydown k))"
  "list_all event_int32 (captured (Keyup k))"
  "list_all event_int32 (captured (Wheel w))"
  "is_int32 (fst (getMousePos rect m)) \<Longrightarrow> is_int32 (snd (getMousePos rect m)) \<Longrightarrow>
     list_all event_int32 (captured (Mousedown rect m))
     \<and> list_all event_int32 (captured (Mouseup rect m))
     \<and> list_all event_int32 (captured (Mousemove rect m))"
  using mapKeyToOSKey_int32 [of k]
  by (simp_all add: captured_def on_keydown_def on_keyup_def on_wheel_def on_mousedown_def
      on_mouseup_def on_mousemove_def pushEvent_def initial_host_def Let_def event_int32_def
      Math_sign_def mapMouseButtonToOSKey_def)
     (simp_all add: is_int32_def)

lemma gameLoop_Inr_empty: "gameLoop g s = Inr s' \<Longrightarrow> eventQueue s' = []"
  by (auto simp add: gameLoop_def clearEventQueue_def split: if_splits sum.splits option.splits)

lemma example_host_simps:
  "eventQueue example_host = example_queue"
  "memory example_host = replicate 48 0"
  "exportCalls example_host = []"
  by (simp_all add: example_host_def initial_host_def)

lemma example_gameLoop: "gameLoop example_guest example_host = Inr example_next_host"
proof -
  have ne: "eventQueue example_host \<noteq> []"
    by (simp add: example_host_simps example_queue_def)
  have "writeEventsToWASM example_guest example_host =
      Inr (example_host\<lparr>memory := store_bytes (replicate 48 0) 4 (events_bytes example_queue),
             exportCalls := [Call_wasm_get_event_buffer, Call_wasm_set_event_count 2]\<rparr>)"
    using writeEventsToWASM_ok [of example_host example_guest]
    by (simp add: example_host_simps example_guest_def example_queue_def)
  then show ?thesis
    using ne
    by (simp add: gameLoop_def example_guest_def example_next_host_def clearEventQueue_def)
qed

text \<open>
  C2. In a frame in which more than 128 records were enqueued, the first 128 of them
  with signed 32-bit fields, and the 2560 bytes from the guest's address lying inside its
  memory: \<^verbatim>\<open>writeEventsToWASM\<close> returns normally; it has stored exactly the first 128
  records, in capture order, as the 2560 bytes from that address, and left the rest of
  the memory as it was; decoding 128 records there gives the first 128 records of the
  queue; the count passed to \<^verbatim>\<open>wasm_set_event_count\<close> is 128; and in the state in which
  \<^verbatim>\<open>gameLoop\<close> requests the next frame the queue is empty, so the other records are
  dropped.
\<close>

theorem flush_overflow:
  assumes "128 < length (eventQueue s)"
    and "list_all event_int32 (take 128 (eventQueue s))"
    and "0 \<le> wasm_get_event_buffer g"
    and "wasm_get_event_buffer g + 2560 \<le> int (length (memory s))"
  shows "writeEventsToWASM g s =
           Inr (s\<lparr>memory := store_bytes (memory s) (nat (wasm_get_event_buffer g))
                               (events_bytes (take 128 (eventQueue s))),
                  exportCalls := exportCalls s @
                    [Call_wasm_get_event_buffer, Call_wasm_set_event_count 128]\<rparr>)
       \<and> length (events_bytes (take 128 (eventQueue s))) = 2560
       \<and> decode_events
             (store_bytes (memory s) (nat (wasm_get_event_buffer g))
                (events_bytes (take 128 (eventQueue s))))
             (wasm_get_event_buffer g) 128
           = Inr (take 128 (eventQueue s))
       \<and> (\<forall>s'. gameLoop g s = Inr s' \<longrightarrow> eventQueue s' = [])"
proof -
  have m: "min (length (eventQueue s)) 128 = 128"
    using assms(1) by simp
  have ne: "eventQueue s \<noteq> []"
    using assms(1) by auto
  have w: "writeEventsToWASM g s =
           Inr (s\<lparr>memory := store_bytes (memory s) (nat (wasm_get_event_buffer g))
                               (events_bytes (take 128 (eventQueue s))),
                  exportCalls := exportCalls s @
                    [Call_wasm_get_event_buffer, Call_wasm_set_event_count 128]\<rparr>)"
    using writeEventsToWASM_ok [OF ne assms(3)] assms(4) by (simp add: m)
  have l: "length (take 128 (eventQueue s)) = 128"
    using assms(1) by simp
  have "nat (wasm_get_event_buffer g) + 20 * length (take 128 (eventQueue s)) \<le> length (memory s)"
    using assms(3,4) unfolding l by linarith
  from decode_events_store [OF assms(2) this]
  have d: "decode_events
             (store_bytes (memory s) (nat (wasm_get_event_buffer g))
                (events_bytes (take 128 (eventQueue s))))
             (wasm_get_event_buffer g) 128
           = Inr (take 128 (eventQueue s))"
    using assms(3) by (simp add: m)
  have b: "length (events_bytes (take 128 (eventQueue s))) = 2560"
    by (simp only: length_events_bytes l)
  show ?thesis
    using w d b gameLoop_Inr_empty by blast
qed

lemma example_overflow_simps:
  "length (eventQueue example_overflow_host) = 130"
  "memory example_overflow_host = replicate 2600 0"
  "exportCalls example_overflow_host = []"
  by (simp_all add: example_overflow_host_def initial_host_def)

lemma example_overflow_int32: "list_all event_int32 (take 128 (eventQueue example_overflow_host))"
  by (auto simp add: list_all_iff example_overflow_host_def event_int32_def is_int32_def
      dest!: in_set_takeD)

theorem flush_overflow_witness:
  "128 < length (eventQueue example_overflow_host)
   \<and> list_all event_int32 (take 128 (eventQueue example_overflow_host))
   \<and> 0 \<le> wasm_get_event_buffer example_guest
   \<and> wasm_get_event_buffer example_guest + 2560 \<le> int (length (memory example_overflow_host))
   \<and> writeEventsToWASM example_guest example_overflow_host =
        Inr (example_overflow_host
               \<lparr>memory := store_bytes (replicate 2600 0) 4
                             (events_bytes (take 128 (eventQueue example_overflow_host))),
                exportCalls := [Call_wasm_get_event_buffer, Call_wasm_set_event_count 128]\<rparr>)
   \<and> decode_events
         (store_bytes (replicate 2600 0) 4
            (events_bytes (take 128 (eventQueue example_overflow_host)))) 4 128
       = Inr (take 128 (eventQueue example_overflow_host))
   \<and> (\<exists>s'. gameLoop example_guest example_overflow_host = Inr s' \<and> eventQueue s' = [])"
proof -
  have h1: "128 < length (eventQueue example_overflow_host)"
    by (simp add: example_overflow_simps)
  have h3: "0 \<le> wasm_get_event_buffer example_guest"
    by (simp add: example_guest_def)
  have h4: "wasm_get_event_buffer example_guest + 2560
      \<le> int (length (memory example_overflow_host))"
    by (simp add: example_guest_def example_overflow_simps)
  have p: "wasm_get_event_buffer example_guest = 4"
    by (simp add: example_guest_def)
  note inst = flush_overflow [OF h1 example_overflow_int32 h3 h4]
  note flushed = inst [THEN conjunct1]
  note cleared = inst [THEN conjunct2, THEN conjunct2, THEN conjunct2]
  have ne: "eventQueue example_overflow_host \<noteq> []"
    using h1 by auto
  have f: "wasm_frame_exported example_guest" "wasm_frame example_guest = Some"
    by (simp_all add: example_guest_def)
  have "\<exists>s'. gameLoop example_guest example_overflow_host = Inr s'"
    using ne by (simp add: gameLoop_def flushed f)
  then obtain s' where s': "gameLoop example_guest example_overflow_host = Inr s'" ..
  with cleared have "eventQueue s' = []"
    by simp
  with s' have g: "\<exists>s'. gameLoop example_guest example_overflow_host = Inr s' \<and> eventQueue s' = []"
    by blast
  have c1: "writeEventsToWASM example_guest example_overflow_host =
        Inr (example_overflow_host
               \<lparr>memory := store_bytes (replicate 2600 0) 4
                             (events_bytes (take 128 (eventQueue example_overflow_host))),
                exportCalls := [Call_wasm_get_event_buffer, Call_wasm_set_event_count 128]\<rparr>)"
    using flushed by (simp only: p example_overflow_simps nat_numeral append_Nil)
  have c2: "decode_events
         (store_bytes (replicate 2600 0) 4
            (events_bytes (take 128 (eventQueue example_overflow_host)))) 4 128
       = Inr (take 128 (eventQueue example_overflow_host))"
    using inst [THEN conjunct2, THEN conjunct2, THEN conjunct1]
    by (simp only: p example_overflow_simps nat_numeral)
  show ?thesis
    using h1 example_overflow_int32 h3 h4 c1 c2 g by (intro conjI)
qed

text \<open>
  C3. Whenever a call of \<^verbatim>\<open>gameLoop\<close> requests the next frame, whether the guest's
  frame function is exported or not and whether the queue was flushed or not, the queue
  is empty in the state it leaves; after the listeners have handled the events \<open>es\<close>
  that arrive before the next call, the queue holds the records of \<open>es\<close> and none of an
  earlier frame. (A call left by an exception requests no further frame.)
\<close>

theorem gameLoop_clears_queue:
  assumes "gameLoop g s = Inr s'"
  shows "eventQueue s' = [] \<and> (\<forall>es. eventQueue (fold dispatch es s') = concat (map captured es))"
  using gameLoop_Inr_empty [OF assms] by (simp add: eventQueue_fold_dispatch)

theorem gameLoop_clears_queue_witness:
  "gameLoop example_guest example_host = Inr example_next_host
   \<and> eventQueue example_next_host = []
   \<and> eventQueue (fold dispatch
         [Keydown \<lparr>kb_key = ''Tab'', kb_code = ''Tab'', kb_location = 0\<rparr>,
          Wheel \<lparr>deltaX = 0, deltaY = - 3\<rparr>] example_next_host)
       = [\<lparr>ev_type = OS_Window_Event_Type_KEYBOARD, ev_x = 0, ev_y = 0, ev_pressed = 1,
            ev_key = OS_Key_TAB\<rparr>,
          \<lparr>ev_type = OS_Window_Event_Type_MOUSE_SCROLL, ev_x = 0, ev_y = 1, ev_pressed = 0,
            ev_key = 0\<rparr>]"
proof -
  note inst = gameLoop_clears_queue [OF example_gameLoop]
  have c1: "captured (Keydown \<lparr>kb_key = ''Tab'', kb_code = ''Tab'', kb_location = 0\<rparr>)
      = [\<lparr>ev_type = OS_Window_Event_Type_KEYBOARD, ev_x = 0, ev_y = 0, ev_pressed = 1,
            ev_key = OS_Key_TAB\<rparr>]"
    by (simp add: captured_def on_keydown_def mapKeyToOSKey_def js_ge_def js_le_def
        pushEvent_def initial_host_def)
  have c2: "captured (Wheel \<lparr>deltaX = 0, deltaY = - 3\<rparr>)
      = [\<lparr>ev_type = OS_Window_Event_Type_MOUSE_SCROLL, ev_x = 0, ev_y = 1, ev_pressed = 0,
            ev_key = 0\<rparr>]"
    by (simp add: captured_def on_wheel_def Math_sign_def pushEvent_def initial_host_def)
  from inst have "eventQueue (fold dispatch
         [Keydown \<lparr>kb_key = ''Tab'', kb_code = ''Tab'', kb_location = 0\<rparr>,
          Wheel \<lparr>deltaX = 0, deltaY = - 3\<rparr>] example_next_host)
       = concat (map captured
         [Keydown \<lparr>kb_key = ''Tab'', kb_code = ''Tab'', kb_location = 0\<rparr>,
          Wheel \<lparr>deltaX = 0, deltaY = - 3\<rparr>])"
    by blast
  then show ?thesis
    using inst example_gameLoop by (simp add: c1 c2)
qed

lemma reported_count_append_frame:
  "reported_count (cs @ [Call_wasm_frame]) = reported_count cs"
  by (induction cs rule: reported_count.induct) simp_all

lemma reported_count_append_set:
  "reported_count (cs @ [Call_wasm_set_event_count n]) = Some n"
  by (induction cs rule: reported_count.induct) simp_all

text \<open>
  C10. When the queue is empty, \<^verbatim>\<open>writeEventsToWASM\<close> changes nothing, and
  \<^verbatim>\<open>gameLoop\<close> hands the guest's frame function the state it started with, only the
  call of \<^verbatim>\<open>wasm_frame\<close> added to the log: the memory is unchanged, neither
  \<^verbatim>\<open>wasm_get_event_buffer\<close> nor \<^verbatim>\<open>wasm_set_event_count\<close> has been called, and the
  count last reported to the guest is the one of the earlier frame, not zero.
\<close>

theorem empty_queue_no_flush:
  assumes "eventQueue s = []"
  shows "writeEventsToWASM g s = Inr s
       \<and> gameLoop g s =
           (if wasm_frame_exported g then
              (case wasm_frame g (s\<lparr>exportCalls := exportCalls s @ [Call_wasm_frame]\<rparr>) of
                 None \<Rightarrow> Inl GuestTrap
               | Some s2 \<Rightarrow> Inr (clearEventQueue s2))
            else Inr (clearEventQueue s))
       \<and> memory (s\<lparr>exportCalls := exportCalls s @ [Call_wasm_frame]\<rparr>) = memory s
       \<and> reported_count (exportCalls s @ [Call_wasm_frame]) = reported_count (exportCalls s)"
  using assms
  by (simp add: writeEventsToWASM_def gameLoop_def reported_count_append_frame)

theorem empty_queue_no_flush_witness:
  "eventQueue example_idle_host = []
   \<and> writeEventsToWASM example_guest example_idle_host = Inr example_idle_host
   \<and> gameLoop example_guest example_idle_host =
        Inr (example_idle_host\<lparr>exportCalls := exportCalls example_idle_host @ [Call_wasm_frame]\<rparr>)
   \<and> reported_count (exportCalls example_idle_host) = Some 3
   \<and> reported_count (exportCalls example_idle_host @ [Call_wasm_frame]) = Some 3"
proof -
  have h: "eventQueue example_idle_host = []"
    by (simp add: example_idle_host_def initial_host_def)
  have r: "reported_count (exportCalls example_idle_host) = Some 3"
    by (simp add: example_idle_host_def)
  have g: "wasm_frame_exported example_guest" "wasm_frame example_guest = Some"
    by (simp_all add: example_guest_def)
  show ?thesis
    using empty_queue_no_flush [OF h, of example_guest] h r
    by (simp add: g clearEventQueue_def)
qed

section \<open>What the listeners enqueue\<close>

text \<open>
  The rounding is to a nearest double: \<open>ilog2\<close> gives the exponent, and the result is
  a whole multiple of the spacing \<open>pow2 (e - 52)\<close> of the doubles at that exponent, at
  most half a spacing away.
\<close>

lemma pow2_powi: "pow2 e = 2 powi e"
  by (simp add: pow2_def power_int_def power_one_over)

lemma pow2_Suc: "pow2 (e + 1) = 2 * pow2 e"
  by (simp add: pow2_powi power_int_add_1)

lemma pow2_pred: "pow2 (e - 1) = pow2 e / 2"
  using pow2_Suc [of "e - 1"] by simp

lemma ilog2_bounds: "0 < x \<Longrightarrow> pow2 (ilog2 x) \<le> x \<and> x < pow2 (ilog2 x + 1)"
proof (induction x rule: ilog2.induct)
  case (1 x)
  consider "2 \<le> x" | "x < 1" | "1 \<le> x" "x < 2"
    by linarith
  then show ?case
  proof cases
    case 1
    then have e: "ilog2 x = ilog2 (x / 2) + 1"
      using "1.prems" by (subst ilog2.simps) simp
    from "1.IH"(1) 1 "1.prems"
    have "pow2 (ilog2 (x / 2)) \<le> x / 2 \<and> x / 2 < pow2 (ilog2 (x / 2) + 1)"
      by simp
    then show ?thesis
      unfolding e pow2_Suc [of "ilog2 (x / 2) + 1"] pow2_Suc [of "ilog2 (x / 2)"] by simp
  next
    case 2
    then have e: "ilog2 x = ilog2 (2 * x) - 1"
      using "1.prems" by (subst ilog2.simps) simp
    from "1.IH"(2) 2 "1.prems"
    have "pow2 (ilog2 (2 * x)) \<le> 2 * x \<and> 2 * x < pow2 (ilog2 (2 * x) + 1)"
      by simp
    then show ?thesis
      unfolding e pow2_pred [of "ilog2 (2 * x)"] pow2_Suc [of "ilog2 (2 * x)"] by simp
  next
    case 3
    then have "ilog2 x = 0"
      by (subst ilog2.simps) simp
    then show ?thesis
      using 3 by (simp add: pow2_def)
  qed
qed

lemma round_half_even_nearest: "\<bar>of_int (round_half_even y) - y\<bar> \<le> 1 / 2"
proof -
  have "of_int \<lfloor>y\<rfloor> \<le> y" "y < of_int \<lfloor>y\<rfloor> + 1"
    by linarith+
  then show ?thesis
    by (auto simp add: round_half_even_def Let_def)
qed

lemma pow2_pos: "0 < pow2 e"
  by (simp add: pow2_def)

lemma round_binary64_nearest:
  "x \<noteq> 0 \<Longrightarrow> \<bar>round_binary64 x - x\<bar> \<le> pow2 (max (ilog2 \<bar>x\<bar>) (- 1022) - 53)"
proof -
  assume "x \<noteq> 0"
  define e where "e = max (ilog2 \<bar>x\<bar>) (- 1022)"
  define q where "q = pow2 (e - 52)"
  have q: "0 < q" by (simp add: q_def pow2_pos)
  have r: "round_binary64 x = of_int (round_half_even (x / q)) * q"
    using \<open>x \<noteq> 0\<close> by (simp add: round_binary64_def Let_def e_def q_def)
  have "\<bar>of_int (round_half_even (x / q)) * q - x\<bar>
      = \<bar>of_int (round_half_even (x / q)) - x / q\<bar> * q"
  proof -
    have "of_int (round_half_even (x / q)) * q - x
        = (of_int (round_half_even (x / q)) - x / q) * q"
      using q by (simp add: left_diff_distrib)
    then show ?thesis
      using q by (simp add: abs_mult)
  qed
  also have "\<dots> \<le> (1 / 2) * q"
    using round_half_even_nearest [of "x / q"] q by (intro mult_right_mono) simp_all
  also have "\<dots> = pow2 (e - 53)"
    using pow2_pred [of "e - 52"] by (simp add: q_def)
  finally show ?thesis
    unfolding r e_def .
qed


lemma example_round_binary64:
  "round_binary64 (13703 / 10) = 6026643134165811 / 2 ^ 42"
  "round_binary64 (4653 / 10) = 8185644166466765 / 2 ^ 44"
  "round_binary64 (9 / 2) = 9 / 2"
  by code_simp+

lemma example_getMousePos_rounding:
  "getMousePos \<lparr>rect_left = 8185644166466765 / 2 ^ 44, rect_top = 0\<rparr>
     \<lparr>clientX = 6026643134165811 / 2 ^ 42, clientY = 0, button = 0\<rparr> = (905, 0)"
  "\<lfloor>6026643134165811 / 2 ^ 42 - 8185644166466765 / 2 ^ 44 :: real\<rfloor> = 904"
  by code_simp+

lemma example_getMousePos:
  "getMousePos \<lparr>rect_left = 21 / 2, rect_top = 81 / 4\<rparr>
     \<lparr>clientX = 15, clientY = 25, button = 3\<rparr> = (4, 4)"
  by code_simp

lemma mapKeyToOSKey_examples:
  "mapKeyToOSKey \<lparr>kb_key = ''A'', kb_code = ''KeyA'', kb_location = 0\<rparr> = 97"
  "mapKeyToOSKey \<lparr>kb_key = ''5'', kb_code = ''Digit5'', kb_location = 0\<rparr> = 53"
  "mapKeyToOSKey \<lparr>kb_key = ''Shift'', kb_code = ''ShiftRight'', kb_location = 2\<rparr> = OS_Key_RSHIFT"
  "mapKeyToOSKey \<lparr>kb_key = ''Insert'', kb_code = ''Insert'', kb_location = 0\<rparr> = OS_Key_UNKNOWN"
  by code_simp+

text \<open>
  C4. A key event whose key maps to \<^verbatim>\<open>OS_Key.UNKNOWN\<close> leaves the queue, and the whole
  state, as it was, on key down and on key up. A mouse-button event always appends one
  \<^verbatim>\<open>MOUSE_BUTTON\<close> record, whose key is \<^verbatim>\<open>OS_Key.UNKNOWN\<close> for a button other than
  0, 1 and 2. A mouse move always appends one \<^verbatim>\<open>MOUSE_MOVE\<close> record and a wheel event
  one \<^verbatim>\<open>MOUSE_SCROLL\<close> record.
\<close>

theorem unknown_key_suppressed:
  "(mapKeyToOSKey k = OS_Key_UNKNOWN \<longrightarrow> on_keydown k s = s \<and> on_keyup k s = s)
   \<and> eventQueue (on_mousedown rect m s) = eventQueue s @
        [\<lparr>ev_type = OS_Window_Event_Type_MOUSE_BUTTON, ev_x = fst (getMousePos rect m),
          ev_y = snd (getMousePos rect m), ev_pressed = 1,
          ev_key = mapMouseButtonToOSKey (button m)\<rparr>]
   \<and> eventQueue (on_mouseup rect m s) = eventQueue s @
        [\<lparr>ev_type = OS_Window_Event_Type_MOUSE_BUTTON, ev_x = fst (getMousePos rect m),
          ev_y = snd (getMousePos rect m), ev_pressed = 0,
          ev_key = mapMouseButtonToOSKey (button m)\<rparr>]
   \<and> (button m \<noteq> 0 \<and> button m \<noteq> 1 \<and> button m \<noteq> 2
        \<longrightarrow> mapMouseButtonToOSKey (button m) = OS_Key_UNKNOWN)
   \<and> eventQueue (on_mousemove rect m s) = eventQueue s @
        [\<lparr>ev_type = OS_Window_Event_Type_MOUSE_MOVE, ev_x = fst (getMousePos rect m),
          ev_y = snd (getMousePos rect m), ev_pressed = 0, ev_key = 0\<rparr>]
   \<and> eventQueue (on_wheel w s) = eventQueue s @
        [\<lparr>ev_type = OS_Window_Event_Type_MOUSE_SCROLL, ev_x = - Math_sign (deltaX w),
          ev_y = - Math_sign (deltaY w), ev_pressed = 0, ev_key = 0\<rparr>]"
  by (simp add: on_keydown_def on_keyup_def on_mousedown_def on_mouseup_def on_mousemove_def
      on_wheel_def mapMouseButtonToOSKey_def Let_def eventQueue_pushEvent)

theorem unknown_key_suppressed_witness:
  "mapKeyToOSKey \<lparr>kb_key = ''PageUp'', kb_code = ''PageUp'', kb_location = 0\<rparr> = OS_Key_UNKNOWN
   \<and> on_keydown \<lparr>kb_key = ''PageUp'', kb_code = ''PageUp'', kb_location = 0\<rparr> example_host
        = example_host
   \<and> on_keyup \<lparr>kb_key = ''PageUp'', kb_code = ''PageUp'', kb_location = 0\<rparr> example_host
        = example_host
   \<and> button \<lparr>clientX = 15, clientY = 25, button = 3\<rparr> \<noteq> 0
   \<and> button \<lparr>clientX = 15, clientY = 25, button = 3\<rparr> \<noteq> 1
   \<and> button \<lparr>clientX = 15, clientY = 25, button = 3\<rparr> \<noteq> 2
   \<and> eventQueue (on_mousedown \<lparr>rect_left = 21 / 2, rect_top = 81 / 4\<rparr>
                    \<lparr>clientX = 15, clientY = 25, button = 3\<rparr> example_host)
        = example_queue @
          [\<lparr>ev_type = OS_Window_Event_Type_MOUSE_BUTTON, ev_x = 4, ev_y = 4, ev_pressed = 1,
            ev_key = OS_Key_UNKNOWN\<rparr>]"
proof -
  have k: "mapKeyToOSKey \<lparr>kb_key = ''PageUp'', kb_code = ''PageUp'', kb_location = 0\<rparr>
      = OS_Key_UNKNOWN"
    by (simp add: mapKeyToOSKey_def js_ge_def js_le_def)
  have b: "button \<lparr>clientX = 15, clientY = 25, button = 3\<rparr> \<noteq> 0
      \<and> button \<lparr>clientX = 15, clientY = 25, button = 3\<rparr> \<noteq> 1
      \<and> button \<lparr>clientX = 15, clientY = 25, button = 3\<rparr> \<noteq> 2"
    by simp
  show ?thesis
    using unknown_key_suppressed
      [of "\<lparr>kb_key = ''PageUp'', kb_code = ''PageUp'', kb_location = 0\<rparr>" example_host
        "\<lparr>rect_left = 21 / 2, rect_top = 81 / 4\<rparr>" "\<lparr>clientX = 15, clientY = 25, button = 3\<rparr>"]
      k b
    by (simp add: example_getMousePos example_host_simps)
qed

text \<open>
  C5. The record a wheel event appends carries, for each axis, \<open>- 1\<close> for a positive
  delta, \<open>1\<close> for a negative one and \<open>0\<close> for none, whatever the magnitude; with
  \<^verbatim>\<open>deltaY = 120\<close> and \<^verbatim>\<open>deltaX = 0\<close> it has \<open>y = - 1\<close> and \<open>x = 0\<close>.
\<close>

theorem wheel_sign_only:
  "eventQueue (on_wheel w s) = eventQueue s @
     [\<lparr>ev_type = OS_Window_Event_Type_MOUSE_SCROLL,
       ev_x = (if deltaX w > 0 then - 1 else if deltaX w < 0 then 1 else 0),
       ev_y = (if deltaY w > 0 then - 1 else if deltaY w < 0 then 1 else 0),
       ev_pressed = 0, ev_key = 0\<rparr>]
   \<and> eventQueue (on_wheel \<lparr>deltaX = 0, deltaY = 120\<rparr> s) = eventQueue s @
     [\<lparr>ev_type = OS_Window_Event_Type_MOUSE_SCROLL, ev_x = 0, ev_y = - 1,
       ev_pressed = 0, ev_key = 0\<rparr>]"
  by (simp add: on_wheel_def Math_sign_def Let_def eventQueue_pushEvent)



section \<open>Files that were not preloaded\<close>

text \<open>
  A path whose request failed, or that is not in the list, is absent after preloading.
\<close>

lemma preloadFiles_absent:
  "fetch path = None \<or> path \<notin> set filesToPreload \<Longrightarrow>
   preloadedFiles (preloadFiles fetch (initial_host mem)) path = None"
  by (auto simp add: preloadFiles_def filesToPreload_def initial_host_def split: option.splits)

text \<open>
  C6. When the path the guest names can be read from its memory and is absent from the
  preload store, \<^verbatim>\<open>js_get_preloaded_file\<close> returns null, \<^verbatim>\<open>js_get_file_size\<close>
  returns 0, and \<^verbatim>\<open>js_copy_file_to_wasm\<close> returns 0 and changes nothing; none of them
  throws.
\<close>

theorem absent_file_not_found:
  assumes "cstr_by_ptr decode (memory s) path_ptr path_len = Inr path"
    and "preloadedFiles s path = None"
  shows "js_get_preloaded_file decode path_ptr path_len s = Inr None
       \<and> js_get_file_size decode path_ptr path_len s = Inr 0
       \<and> js_copy_file_to_wasm decode path_ptr path_len dest_ptr max_size s = Inr (0, s)"
  using assms
  by (simp add: js_get_preloaded_file_def js_get_file_size_def js_copy_file_to_wasm_def)

theorem absent_file_not_found_witness:
  "cstr_by_ptr latin1 (memory example_files_host) 0 3 = Inr (latin1 [97, 46, 98])
   \<and> preloadedFiles example_files_host (latin1 [97, 46, 98]) = None
   \<and> js_get_preloaded_file latin1 0 3 example_files_host = Inr None
   \<and> js_get_file_size latin1 0 3 example_files_host = Inr 0
   \<and> js_copy_file_to_wasm latin1 0 3 16 100 example_files_host = Inr (0, example_files_host)"
proof -
  have h1: "cstr_by_ptr latin1 (memory example_files_host) 0 3 = Inr (latin1 [97, 46, 98])"
    by (simp add: example_files_host_def preloadFiles_def filesToPreload_def initial_host_def
        cstr_by_ptr_def Uint8Array_view_def)
  have h2: "preloadedFiles example_files_host (latin1 [97, 46, 98]) = None"
    by (simp add: example_files_host_def preloadFiles_def filesToPreload_def initial_host_def)
  show ?thesis
    using absent_file_not_found [OF h1 h2, of 16 100] h1 h2 by simp
qed

section \<open>Texture handles\<close>

lemma webgl_create_texture_handle:
  assumes "webgl_create_texture t d w h p f s = (r, s1)"
  shows "nextTextureHandle s \<le> nextTextureHandle s1"
    and "r = Inr handle \<Longrightarrow> handle = nextTextureHandle s \<and> nextTextureHandle s1 = handle + 1"
  using assms
  by (auto simp add: webgl_create_texture_def Let_def split: if_splits sum.splits)

lemma webgl_destroy_texture_handle:
  "webgl_destroy_texture handle s = Inr s1 \<Longrightarrow> nextTextureHandle s1 = nextTextureHandle s"
  by (auto simp add: webgl_destroy_texture_def split: option.splits if_splits)

lemma texture_calls_handles:
  "texture_calls cs s = (hs, s') \<Longrightarrow>
     nextTextureHandle s \<le> nextTextureHandle s'
     \<and> sorted_wrt (<) hs
     \<and> (\<forall>h \<in> set hs. nextTextureHandle s \<le> h \<and> h < nextTextureHandle s')"
proof (induction cs arbitrary: s hs s')
  case Nil
  then show ?case by simp
next
  case (Cons c cs)
  show ?case
  proof (cases c)
    case (Create_texture t d w h p f)
    obtain r s1 where c1: "webgl_create_texture t d w h p f s = (r, s1)"
      by (cases "webgl_create_texture t d w h p f s") 
    show ?thesis
    proof (cases r)
      case (Inl e)
      with Cons.prems Create_texture c1 have "texture_calls cs s1 = (hs, s')" by simp
      from Cons.IH [OF this] webgl_create_texture_handle(1) [OF c1]
      show ?thesis by auto
    next
      case (Inr handle)
      obtain hs1 where t1: "texture_calls cs s1 = (hs1, s')" and hs: "hs = handle # hs1"
        using Cons.prems Create_texture c1 Inr
        by (cases "texture_calls cs s1") auto
      from webgl_create_texture_handle(2) [OF c1 Inr]
      have hd: "handle = nextTextureHandle s" "nextTextureHandle s1 = handle + 1" by simp_all
      from Cons.IH [OF t1] hd hs
      show ?thesis by auto
    qed
  next
    case (Destroy_texture handle)
    show ?thesis
    proof (cases "webgl_destroy_texture handle s")
      case (Inl e)
      with Cons.prems Destroy_texture have "texture_calls cs s = (hs, s')" by simp
      from Cons.IH [OF this] show ?thesis .
    next
      case (Inr s1)
      with Cons.prems Destroy_texture have "texture_calls cs s1 = (hs, s')" by simp
      from Cons.IH [OF this] webgl_destroy_texture_handle [OF Inr]
      show ?thesis by simp
    qed
  qed
qed

text \<open>
  C7. From a state in which \<^verbatim>\<open>nextTextureHandle\<close> is 1, as it is when the module is
  loaded, let any sequence of calls of \<^verbatim>\<open>webgl_create_texture\<close> and
  \<^verbatim>\<open>webgl_destroy_texture\<close> return the handles \<open>hs\<close>, let \<open>K\<close> be one of them, and let
  \<open>K\<close> be destroyed and two textures be created, returning \<open>hs'\<close>. Then the handles
  \<open>hs\<close> followed by \<open>hs'\<close> are strictly increasing and at least 1, \<open>K\<close> is not among
  \<open>hs'\<close>, the handles \<open>hs'\<close> differ from each other, and a first call of
  \<^verbatim>\<open>webgl_create_texture\<close> that returns, returns 1.
\<close>

theorem texture_handles_never_reused:
  assumes "nextTextureHandle s0 = 1"
    and "texture_calls cs s0 = (hs, s)"
    and "K \<in> set hs"
    and "texture_calls [Destroy_texture K, Create_texture t1 d1 w1 h1 p1 f1,
                        Create_texture t2 d2 w2 h2 p2 f2] s = (hs', s')"
  shows "sorted_wrt (<) (hs @ hs')
       \<and> (\<forall>h \<in> set (hs @ hs'). 1 \<le> h)
       \<and> K \<notin> set hs' \<and> distinct hs'
       \<and> (\<forall>t d w h p f r s1. webgl_create_texture t d w h p f s0 = (Inr r, s1) \<longrightarrow> r = 1)"
proof -
  from texture_calls_handles [OF assms(2)] assms(1)
  have a: "sorted_wrt (<) hs" "\<forall>h \<in> set hs. 1 \<le> h \<and> h < nextTextureHandle s"
    "1 \<le> nextTextureHandle s"
    by simp_all
  from texture_calls_handles [OF assms(4)]
  have b: "sorted_wrt (<) hs'" "\<forall>h \<in> set hs'. nextTextureHandle s \<le> h"
    by simp_all
  have "sorted_wrt (<) (hs @ hs')"
    using a b by (fastforce simp add: sorted_wrt_append)
  moreover have "\<forall>h \<in> set (hs @ hs'). 1 \<le> h"
    using a b by fastforce
  moreover have "K \<notin> set hs'"
    using a(2) b(2) assms(3) by fastforce
  moreover have "distinct hs'"
    using b(1) by (simp add: strict_sorted_iff)
  moreover have "\<forall>t d w h p f r s1. webgl_create_texture t d w h p f s0 = (Inr r, s1) \<longrightarrow> r = 1"
    using webgl_create_texture_handle(2) assms(1) by fastforce
  ultimately show ?thesis by blast
qed

lemma example_texture_handles: "fst (texture_calls example_texture_calls example_gl_host) = [1, 2]"
  by (simp add: example_texture_calls_def example_gl_host_def initial_host_def
      webgl_create_texture_def Uint8Array_view_def bytesPerPixel_def Let_def)

lemma example_texture_handles_after:
  "fst (texture_calls
          [Destroy_texture 1, Create_texture (Some 2) 0 2 2 PixelFormat_RGBA 0,
           Create_texture (Some 3) 0 2 2 PixelFormat_RGBA 0]
          (snd (texture_calls example_texture_calls example_gl_host))) = [3, 4]"
  by (simp add: example_texture_calls_def example_gl_host_def initial_host_def
      webgl_create_texture_def webgl_destroy_texture_def Uint8Array_view_def
      bytesPerPixel_def Let_def)

theorem texture_handles_never_reused_witness:
  "nextTextureHandle example_gl_host = 1
   \<and> fst (texture_calls example_texture_calls example_gl_host) = [1, 2]
   \<and> (1::int) \<in> set [1, 2]
   \<and> fst (texture_calls [Destroy_texture 1, Create_texture (Some 2) 0 2 2 PixelFormat_RGBA 0,
              Create_texture (Some 3) 0 2 2 PixelFormat_RGBA 0]
            (snd (texture_calls example_texture_calls example_gl_host))) = [3, 4]
   \<and> sorted_wrt (<) ([1, 2] @ [3, 4 :: int])
   \<and> (1::int) \<notin> set [3, 4] \<and> distinct [3, 4 :: int]
   \<and> fst (webgl_create_texture (Some 0) 16 2 2 PixelFormat_RGBA 0 example_gl_host) = Inr 1"
proof -
  let ?s = "snd (texture_calls example_texture_calls example_gl_host)"
  let ?after = "texture_calls [Destroy_texture 1, Create_texture (Some 2) 0 2 2 PixelFormat_RGBA 0,
              Create_texture (Some 3) 0 2 2 PixelFormat_RGBA 0] ?s"
  have h1: "nextTextureHandle example_gl_host = 1"
    by (simp add: example_gl_host_def initial_host_def)
  have h2: "texture_calls example_texture_calls example_gl_host = ([1, 2], ?s)"
    using example_texture_handles by (simp add: prod_eq_iff)
  have h3: "(1::int) \<in> set [1, 2]"
    by simp
  have h4: "?after = ([3, 4], snd ?after)"
    using example_texture_handles_after by (simp add: prod_eq_iff)
  have h5: "webgl_create_texture (Some 0) 16 2 2 PixelFormat_RGBA 0 example_gl_host
      = (Inr (nextTextureHandle example_gl_host),
         snd (webgl_create_texture (Some 0) 16 2 2 PixelFormat_RGBA 0 example_gl_host))"
    by (simp add: example_gl_host_def initial_host_def webgl_create_texture_def
        Uint8Array_view_def bytesPerPixel_def Let_def)
  note inst = texture_handles_never_reused [OF h1 h2 h3 h4]
  from inst h5 have "nextTextureHandle example_gl_host = 1"
    by blast
  with h5 have "fst (webgl_create_texture (Some 0) 16 2 2 PixelFormat_RGBA 0 example_gl_host) = Inr 1"
    by (metis fst_conv)
  then show ?thesis
    using inst h1 example_texture_handles example_texture_handles_after by simp
qed

section \<open>The draw call\<close>

text \<open>
  Whenever \<^verbatim>\<open>webgl_draw_vertex_buffer\<close> returns, it has declared the colour attribute
  as four \<^verbatim>\<open>FLOAT\<close>s, whatever the flag, and has issued exactly one draw call,
  \<^verbatim>\<open>drawArrays(TRIANGLES, 0, count)\<close>.
\<close>

lemma draw_calls_when_returning:
  assumes "webgl_draw_vertex_buffer count vert_data vert_size vert_stride vert_offset uv_data
             uv_stride uv_offset color_data color_stride color_offset color_is_float s
           = (calls, None)"
  shows "\<exists>info. programInfo s = Some info
           \<and> VertexAttribPointer (attribLocations_color info) 4 GL_FLOAT False
                color_stride color_offset \<in> set calls"
    and "filter (\<lambda>c. case c of DrawArrays m f n \<Rightarrow> True | _ \<Rightarrow> False) calls
           = [DrawArrays GL_TRIANGLES 0 count]"
  using assms
  by (auto simp add: webgl_draw_vertex_buffer_def Let_def
      split: if_splits sum.splits option.splits)

text \<open>
  C9. The flag \<^verbatim>\<open>color_is_float\<close> does not reach the colour attribute. Called with
  \<^verbatim>\<open>color_is_float = 0\<close> on three vertices of 20 bytes (position at 0, UV at 8, colour
  at 16), \<^verbatim>\<open>webgl_draw_vertex_buffer\<close> declares the colour attribute as four
  \<^verbatim>\<open>FLOAT\<close>s and the UV attribute as two \<^verbatim>\<open>UNSIGNED_BYTE\<close>s; it issues one
  \<^verbatim>\<open>drawArrays(TRIANGLES, 0, 3)\<close>.
\<close>

theorem draw_color_type_ignores_flag:
  "webgl_draw_vertex_buffer 3 0 2 20 0 0 20 8 0 20 16 0 example_gl_host =
     ([CreateBuffer, BindBuffer GL_ARRAY_BUFFER,
       BufferData GL_ARRAY_BUFFER (replicate 60 0) GL_STREAM_DRAW,
       UseProgram 0,
       EnableVertexAttribArray 0,
       VertexAttribPointer 0 2 GL_FLOAT False 20 0,
       EnableVertexAttribArray 1,
       VertexAttribPointer 1 4 GL_FLOAT False 20 16,
       EnableVertexAttribArray 2,
       VertexAttribPointer 2 2 GL_UNSIGNED_BYTE False 20 8,
       UniformMatrix4fv 0 False identity_matrix,
       UniformMatrix4fv 1 False identity_matrix,
       Uniform1i 2 0, Uniform1i 3 0, Uniform1i 4 0,
       DrawArrays GL_TRIANGLES 0 3,
       DeleteBuffer], None)"
  by (simp add: webgl_draw_vertex_buffer_def example_gl_host_def initial_host_def
      float32_array_by_ptr_def Float32Array_view_def truncated_quarter_def Let_def)

end
